theory Spec2Isabelle
  imports Complex_Main "HOL-Library.Sublist"
begin

section \<open>Python values\<close>

text \<open>
  The server of \<^verbatim>\<open>timber_mcp_protocol_server.py\<close> works on the values that
  \<^verbatim>\<open>json.loads\<close> produces and \<^verbatim>\<open>json.dumps\<close> consumes: \<^verbatim>\<open>None\<close>, booleans,
  integers, floats, strings, lists and dictionaries with string keys. A dictionary is an
  association list in insertion order; a decoder yields no repeated key. A float is the
  decimal number its literal denotes. A \<^typ>\<open>char\<close> stands for one code point below 256.
\<close>

datatype json =
    JNull
  | JBool bool
  | JInt int
  | JFloat real
  | JStr string
  | JArr "json list"
  | JObj "(string \<times> json) list"

text \<open>
  Exceptions are values. The first five are the classes the interpreter and the decoder
  raise on the paths of the server; \<open>Raised tag\<close> is an exception of any other class
  (a botocore client error, a \<^verbatim>\<open>RecursionError\<close> of the decoder), named by a tag.
\<close>

datatype py_exn =
    JSONDecodeError
  | AttributeError
  | KeyError
  | TypeError
  | IndexError
  | Raised string

text \<open>
  What the server takes from the Python runtime and its standard library:
  \<^verbatim>\<open>json.loads\<close> on a line (a value, or the exception it raises), \<^verbatim>\<open>str\<close> on a float,
  list or dictionary, and \<^verbatim>\<open>str\<close> on an exception. \<^verbatim>\<open>json.dumps\<close> is a function of
  its argument and does not fail on these values: where the server serialises a
  dictionary, the model keeps the dictionary.
\<close>

record python =
  json_loads :: "string \<Rightarrow> py_exn + json"
  str_value :: "json \<Rightarrow> string"
  str_exn :: "py_exn \<Rightarrow> string"

text \<open>\<^verbatim>\<open>d.get(k, default)\<close> on a dictionary.\<close>

definition get_default :: "(string \<times> json) list \<Rightarrow> string \<Rightarrow> json \<Rightarrow> json" where
  "get_default kvs k d = (case map_of kvs k of None \<Rightarrow> d | Some v \<Rightarrow> v)"

text \<open>\<^verbatim>\<open>x.get(k, default)\<close> on any value: only a dictionary has the attribute.\<close>

fun py_get :: "json \<Rightarrow> string \<Rightarrow> json \<Rightarrow> py_exn + json" where
  "py_get (JObj kvs) k d = Inr (get_default kvs k d)"
| "py_get _ k d = Inl AttributeError"

text \<open>\<^verbatim>\<open>x[k]\<close> for a string key \<open>k\<close>.\<close>

fun getitem_key :: "json \<Rightarrow> string \<Rightarrow> py_exn + json" where
  "getitem_key (JObj kvs) k = (case map_of kvs k of None \<Rightarrow> Inl KeyError | Some v \<Rightarrow> Inr v)"
| "getitem_key _ k = Inl TypeError"

text \<open>\<^verbatim>\<open>x[0]\<close>.\<close>

fun getitem_first :: "json \<Rightarrow> py_exn + json" where
  "getitem_first (JArr xs) = (case xs of [] \<Rightarrow> Inl IndexError | x # _ \<Rightarrow> Inr x)"
| "getitem_first (JStr s) = (case s of [] \<Rightarrow> Inl IndexError | c # _ \<Rightarrow> Inr (JStr [c]))"
| "getitem_first (JObj kvs) = Inl KeyError"
| "getitem_first _ = Inl TypeError"

text \<open>The truth value of \<^verbatim>\<open>x\<close> in \<^verbatim>\<open>if not x\<close>.\<close>

fun truthy :: "json \<Rightarrow> bool" where
  "truthy JNull = False"
| "truthy (JBool b) = b"
| "truthy (JInt i) = (i \<noteq> 0)"
| "truthy (JFloat r) = (r \<noteq> 0)"
| "truthy (JStr s) = (s \<noteq> [])"
| "truthy (JArr xs) = (xs \<noteq> [])"
| "truthy (JObj kvs) = (kvs \<noteq> [])"

text \<open>The elements \<^verbatim>\<open>enumerate(x)\<close> runs through, and \<^verbatim>\<open>len(x)\<close>.\<close>

fun py_iter :: "json \<Rightarrow> py_exn + json list" where
  "py_iter (JArr xs) = Inr xs"
| "py_iter (JStr s) = Inr (map (\<lambda>c. JStr [c]) s)"
| "py_iter (JObj kvs) = Inr (map (\<lambda>kv. JStr (fst kv)) kvs)"
| "py_iter _ = Inl TypeError"

fun py_len :: "json \<Rightarrow> py_exn + nat" where
  "py_len (JArr xs) = Inr (length xs)"
| "py_len (JStr s) = Inr (length s)"
| "py_len (JObj kvs) = Inr (length kvs)"
| "py_len _ = Inl TypeError"

text \<open>Decimal digits of a number, as \<^verbatim>\<open>str\<close> prints an \<^verbatim>\<open>int\<close>.\<close>

fun show_nat :: "nat \<Rightarrow> string" where
  "show_nat n =
     (if n < 10 then [''0123456789'' ! n]
      else show_nat (n div 10) @ [''0123456789'' ! (n mod 10)])"

definition show_int :: "int \<Rightarrow> string" where
  "show_int i = (if i < 0 then ''-'' @ show_nat (nat (- i)) else show_nat (nat i))"

text \<open>A replacement field \<^verbatim>\<open>{x}\<close> of an f-string: \<^verbatim>\<open>str(x)\<close>; a string is itself.\<close>

definition format_value :: "python \<Rightarrow> json \<Rightarrow> string" where
  "format_value py v =
     (case v of
        JStr s \<Rightarrow> s
      | JNull \<Rightarrow> ''None''
      | JBool b \<Rightarrow> (if b then ''True'' else ''False'')
      | JInt i \<Rightarrow> show_int i
      | _ \<Rightarrow> str_value py v)"

text \<open>\<^verbatim>\<open>sep.join(xs)\<close>.\<close>

fun join :: "string \<Rightarrow> string list \<Rightarrow> string" where
  "join sep [] = []"
| "join sep [x] = x"
| "join sep (x # y # ys) = x @ sep @ join sep (y # ys)"

section \<open>Configuration and the Bedrock clients\<close>

text \<open>
  The module-level settings, fixed once the module is loaded. \<open>LOCAL_MODE\<close> is the
  simulated mode; the two clients exist only when it is off.
\<close>

record config =
  LOCAL_MODE :: bool
  KNOWLEDGE_BASE_ID :: string
  MODEL_ID :: string

text \<open>
  The two external services act on a world \<open>'w\<close> that the model threads through every
  call. \<open>retrieve\<close> takes the keyword arguments of \<^verbatim>\<open>bedrock_agent_runtime.retrieve\<close> and
  yields the response dictionary or the exception raised. \<open>invoke_model\<close> takes the
  keyword arguments of \<^verbatim>\<open>bedrock_runtime.invoke_model\<close> (the body as the dictionary
  given to \<^verbatim>\<open>json.dumps\<close>) and yields the value
  \<^verbatim>\<open>json.loads(model_response['body'].read().decode('utf-8'))\<close>, or the exception raised
  on the way to it. A \<open>call\<close> records one external call with its arguments.
\<close>

record 'w bedrock =
  retrieve :: "json \<Rightarrow> 'w \<Rightarrow> (py_exn + json) \<times> 'w"
  invoke_model :: "json \<Rightarrow> 'w \<Rightarrow> (py_exn + json) \<times> 'w"

datatype call = Retrieve json | InvokeModel json

section \<open>The backend client: \<^verbatim>\<open>MCPServer.query_knowledge_base\<close>\<close>

definition retrieve_kwargs :: "config \<Rightarrow> json \<Rightarrow> json" where
  "retrieve_kwargs cfg query =
     JObj [(''knowledgeBaseId'', JStr (KNOWLEDGE_BASE_ID cfg)),
           (''retrievalQuery'', JObj [(''text'', query)]),
           (''retrievalConfiguration'',
              JObj [(''vectorSearchConfiguration'', JObj [(''numberOfResults'', JInt 5)])])]"

text \<open>
  The list comprehension over \<^verbatim>\<open>enumerate(retrieved_results)\<close>; \<open>i\<close> is the index of
  the first element. The first failing subscript ends it.
\<close>

fun document_lines :: "python \<Rightarrow> nat \<Rightarrow> json list \<Rightarrow> py_exn + string list" where
  "document_lines py i [] = Inr []"
| "document_lines py i (result # rest) =
     (case getitem_key result ''content'' of
        Inl e \<Rightarrow> Inl e
      | Inr c \<Rightarrow>
         (case getitem_key c ''text'' of
            Inl e \<Rightarrow> Inl e
          | Inr t \<Rightarrow>
             (case document_lines py (Suc i) rest of
                Inl e \<Rightarrow> Inl e
              | Inr ls \<Rightarrow>
                 Inr ((''Document '' @ show_nat (i + 1) @ '': '' @ format_value py t) # ls))))"

definition build_context :: "python \<Rightarrow> json \<Rightarrow> py_exn + string" where
  "build_context py retrieved_results =
     (case py_iter retrieved_results of
        Inl e \<Rightarrow> Inl e
      | Inr results \<Rightarrow>
         (case document_lines py 0 results of
            Inl e \<Rightarrow> Inl e
          | Inr ls \<Rightarrow> Inr (join ''\<newline>\<newline>'' ls)))"

definition build_prompt :: "python \<Rightarrow> json \<Rightarrow> string \<Rightarrow> string" where
  "build_prompt py query context =
     ''Based on the following Timber documentation, answer the user's question: ''
     @ [CHR 0x22] @ format_value py query @ [CHR 0x22]
     @ ''\<newline>\<newline>Documentation:\<newline>'' @ context
     @ ''\<newline>\<newline>Please provide a helpful and accurate answer based on the documentation provided.''"

definition invoke_kwargs :: "config \<Rightarrow> string \<Rightarrow> json" where
  "invoke_kwargs cfg prompt =
     JObj [(''modelId'', JStr (MODEL_ID cfg)),
           (''body'',
              JObj [(''anthropic_version'', JStr ''bedrock-2023-05-31''),
                    (''max_tokens'', JInt 1000),
                    (''messages'',
                       JArr [JObj [(''role'', JStr ''user''), (''content'', JStr prompt)]])])]"

text \<open>\<^verbatim>\<open>response_body['content'][0]['text']\<close>.\<close>

definition response_text :: "json \<Rightarrow> py_exn + json" where
  "response_text response_body =
     (case getitem_key response_body ''content'' of
        Inl e \<Rightarrow> Inl e
      | Inr content \<Rightarrow>
         (case getitem_first content of
            Inl e \<Rightarrow> Inl e
          | Inr segment \<Rightarrow> getitem_key segment ''text''))"

definition nothing_found :: json where
  "nothing_found =
     JObj [(''response'', JStr ''No relevant information found in the Timber knowledge base.''),
           (''source'', JStr ''knowledge_base''),
           (''confidence'', JFloat 0.0)]"

definition generated_answer :: "json \<Rightarrow> nat \<Rightarrow> json" where
  "generated_answer text n =
     JObj [(''response'', text),
           (''source'', JStr ''knowledge_base''),
           (''confidence'', JFloat 0.9),
           (''retrieved_count'', JInt (int n))]"

text \<open>
  The body of the \<^verbatim>\<open>try\<close> statement: the Answer Record or the exception that left the
  body, the external calls made in order, and the world after them.
\<close>

definition query_live ::
  "config \<Rightarrow> python \<Rightarrow> 'w bedrock \<Rightarrow> json \<Rightarrow> 'w \<Rightarrow> (py_exn + json) \<times> call list \<times> 'w" where
  "query_live cfg py be query w =
     (let kwargs = retrieve_kwargs cfg query;
          (retrieved, w1) = retrieve be kwargs w
      in case retrieved of
           Inl e \<Rightarrow> (Inl e, [Retrieve kwargs], w1)
         | Inr retrieve_response \<Rightarrow>
            (case py_get retrieve_response ''retrievalResults'' (JArr []) of
               Inl e \<Rightarrow> (Inl e, [Retrieve kwargs], w1)
             | Inr retrieved_results \<Rightarrow>
                if \<not> truthy retrieved_results then (Inr nothing_found, [Retrieve kwargs], w1)
                else
                  (case build_context py retrieved_results of
                     Inl e \<Rightarrow> (Inl e, [Retrieve kwargs], w1)
                   | Inr context \<Rightarrow>
                      (let margs = invoke_kwargs cfg (build_prompt py query context);
                           (generated, w2) = invoke_model be margs w1;
                           calls = [Retrieve kwargs, InvokeModel margs]
                       in case generated of
                            Inl e \<Rightarrow> (Inl e, calls, w2)
                          | Inr response_body \<Rightarrow>
                             (case response_text response_body of
                                Inl e \<Rightarrow> (Inl e, calls, w2)
                              | Inr text \<Rightarrow>
                                 (case py_len retrieved_results of
                                    Inl e \<Rightarrow> (Inl e, calls, w2)
                                  | Inr n \<Rightarrow> (Inr (generated_answer text n), calls, w2)))))))"

definition simulated_answer :: "python \<Rightarrow> json \<Rightarrow> json" where
  "simulated_answer py query =
     JObj [(''response'', JStr (''[LOCAL MODE] Simulated response for: '' @ format_value py query)),
           (''source'', JStr ''local_simulation''),
           (''confidence'', JFloat 0.8)]"

definition error_answer :: "python \<Rightarrow> py_exn \<Rightarrow> json" where
  "error_answer py e =
     JObj [(''response'', JStr (''Error querying knowledge base: '' @ str_exn py e)),
           (''source'', JStr ''error''),
           (''confidence'', JFloat 0.0)]"

text \<open>
  The method itself: the Answer Record (it never raises), the external calls it made and
  the world after them.
\<close>

definition query_knowledge_base ::
  "config \<Rightarrow> python \<Rightarrow> 'w bedrock \<Rightarrow> json \<Rightarrow> 'w \<Rightarrow> json \<times> call list \<times> 'w" where
  "query_knowledge_base cfg py be query w =
     (if LOCAL_MODE cfg then (simulated_answer py query, [], w)
      else
        (case query_live cfg py be query w of
           (Inl e, calls, w') \<Rightarrow> (error_answer py e, calls, w')
         | (Inr answer, calls, w') \<Rightarrow> (answer, calls, w')))"

section \<open>The dispatcher: \<^verbatim>\<open>MCPServer.handle_request\<close>\<close>

text \<open>The server object: \<^verbatim>\<open>self.tools\<close>, as \<^verbatim>\<open>__init__\<close> builds it.\<close>

record server =
  tools :: "(string \<times> json) list"

definition MCPServer_init :: server where
  "MCPServer_init =
     \<lparr>tools =
        [(''query_timber_kb'',
          JObj [(''name'', JStr ''query_timber_kb''),
                (''description'',
                   JStr ''Query the Timber knowledge base for troubleshooting information''),
                (''inputSchema'',
                   JObj [(''type'', JStr ''object''),
                         (''properties'',
                            JObj [(''query'',
                                   JObj [(''type'', JStr ''string''),
                                         (''description'',
                                            JStr ''The question or query about Timber'')])]),
                         (''required'', JArr [JStr ''query''])])])]\<rparr>"

text \<open>The two envelopes: a result payload, or an error payload with a code and a message.\<close>

definition result_response :: "json \<Rightarrow> json \<Rightarrow> json" where
  "result_response i payload =
     JObj [(''jsonrpc'', JStr ''2.0''), (''id'', i), (''result'', payload)]"

definition error_response :: "json \<Rightarrow> int \<Rightarrow> string \<Rightarrow> json" where
  "error_response i code message =
     JObj [(''jsonrpc'', JStr ''2.0''), (''id'', i),
           (''error'', JObj [(''code'', JInt code), (''message'', JStr message)])]"

definition initialize_result :: json where
  "initialize_result =
     JObj [(''protocolVersion'', JStr ''2024-11-05''),
           (''capabilities'', JObj [(''tools'', JObj [])]),
           (''serverInfo'',
              JObj [(''name'', JStr ''bedrock-kb-retrieval''), (''version'', JStr ''1.0.0'')])]"

definition tool_result :: "json \<Rightarrow> json" where
  "tool_result text =
     JObj [(''content'', JArr [JObj [(''type'', JStr ''text''), (''text'', text)]]),
           (''isError'', JBool False)]"

text \<open>The default response, after the branches on the method.\<close>

definition method_not_found :: "python \<Rightarrow> (string \<times> json) list \<Rightarrow> json \<Rightarrow> json" where
  "method_not_found py req method =
     error_response (get_default req ''id'' JNull) (- 32601)
       (''Method not found: '' @ format_value py method)"

text \<open>
  The response or the exception raised, the external calls made and the world after
  them. A request that is no dictionary has no \<^verbatim>\<open>get\<close>: the first statement raises.
\<close>

fun handle_request ::
  "config \<Rightarrow> python \<Rightarrow> 'w bedrock \<Rightarrow> server \<Rightarrow> json \<Rightarrow> 'w \<Rightarrow> (py_exn + json) \<times> call list \<times> 'w" where
  "handle_request cfg py be srv (JObj req) w =
     (let method = get_default req ''method'' JNull;
          params = get_default req ''params'' (JObj [])
      in if method = JStr ''initialize'' then
           (Inr (result_response (get_default req ''id'' JNull) initialize_result), [], w)
         else if method = JStr ''tools/list'' then
           (Inr (result_response (get_default req ''id'' JNull)
                   (JObj [(''tools'', JArr (map snd (tools srv)))])), [], w)
         else if method = JStr ''tools/call'' then
           (case py_get params ''name'' JNull of
              Inl e \<Rightarrow> (Inl e, [], w)
            | Inr tool_name \<Rightarrow>
               (case py_get params ''arguments'' (JObj []) of
                  Inl e \<Rightarrow> (Inl e, [], w)
                | Inr arguments \<Rightarrow>
                   if tool_name = JStr ''query_timber_kb'' then
                     (case py_get arguments ''query'' (JStr []) of
                        Inl e \<Rightarrow> (Inl e, [], w)
                      | Inr query \<Rightarrow>
                         (case query_knowledge_base cfg py be query w of
                            (result, calls, w') \<Rightarrow>
                              (case getitem_key result ''response'' of
                                 Inl e \<Rightarrow> (Inl e, calls, w')
                               | Inr text \<Rightarrow>
                                  (Inr (result_response (get_default req ''id'' JNull)
                                          (tool_result text)), calls, w'))))
                   else (Inr (method_not_found py req method), [], w)))
         else (Inr (method_not_found py req method), [], w))"
| "handle_request cfg py be srv _ w = (Inl AttributeError, [], w)"

declare handle_request.simps [simp del]

section \<open>The session loop: \<^verbatim>\<open>MCPServer.run\<close>\<close>

text \<open>
  The state of a session: the server object, the local variable \<^verbatim>\<open>request\<close> (unbound
  until the first line decodes), the responses printed so far (one line each, oldest
  first) and the world of the external services. Standard output is taken to accept
  every line; the log file is not modelled.
\<close>

record 'w session =
  self :: server
  request_var :: "json option"
  stdout :: "json list"
  world :: 'w

definition py_print :: "'w session \<Rightarrow> json \<Rightarrow> 'w session" where
  "py_print st response = st\<lparr>stdout := stdout st @ [response]\<rparr>"

text \<open>
  The clause \<^verbatim>\<open>except Exception\<close>: the id is read from \<^verbatim>\<open>request\<close> when the name is
  bound. An exception raised there leaves the \<^verbatim>\<open>try\<close> statement; \<open>Some e\<close> says so.
\<close>

definition internal_error :: "'w session \<Rightarrow> py_exn option \<times> 'w session" where
  "internal_error st =
     (case (case request_var st of
              None \<Rightarrow> Inr JNull
            | Some request \<Rightarrow> py_get request ''id'' JNull) of
        Inl e \<Rightarrow> (Some e, st)
      | Inr i \<Rightarrow> (None, py_print st (error_response i (- 32603) ''Internal error'')))"

text \<open>The two \<^verbatim>\<open>except\<close> clauses of the inner \<^verbatim>\<open>try\<close>, in their order.\<close>

definition except_clauses :: "'w session \<Rightarrow> py_exn \<Rightarrow> py_exn option \<times> 'w session" where
  "except_clauses st e =
     (if e = JSONDecodeError
      then (None, py_print st (error_response JNull (- 32700) ''Parse error''))
      else internal_error st)"

text \<open>
  The inner \<^verbatim>\<open>try\<close> statement on a stripped, non-empty line. The argument of
  \<^verbatim>\<open>logger.info\<close> evaluates \<^verbatim>\<open>request.get('method', 'unknown')\<close> before the dispatcher
  is called.
\<close>

definition process_line ::
  "config \<Rightarrow> python \<Rightarrow> 'w bedrock \<Rightarrow> 'w session \<Rightarrow> string \<Rightarrow> py_exn option \<times> 'w session" where
  "process_line cfg py be st line =
     (case json_loads py line of
        Inl e \<Rightarrow> except_clauses st e
      | Inr request \<Rightarrow>
         (let st1 = st\<lparr>request_var := Some request\<rparr>
          in case py_get request ''method'' (JStr ''unknown'') of
               Inl e \<Rightarrow> except_clauses st1 e
             | Inr logged \<Rightarrow>
                (case handle_request cfg py be (self st1) request (world st1) of
                   (Inl e, calls, w') \<Rightarrow> except_clauses (st1\<lparr>world := w'\<rparr>) e
                 | (Inr response, calls, w') \<Rightarrow> (None, py_print (st1\<lparr>world := w'\<rparr>) response))))"

text \<open>\<^verbatim>\<open>str.isspace\<close> on one character, and \<^verbatim>\<open>str.strip()\<close>.\<close>

definition py_isspace :: "char \<Rightarrow> bool" where
  "py_isspace c = (of_char c \<in> set [9, 10, 11, 12, 13, 28, 29, 30, 31, 32, 133, 160 :: nat])"

definition strip :: "string \<Rightarrow> string" where
  "strip s = rev (dropWhile py_isspace (rev (dropWhile py_isspace s)))"

text \<open>
  What \<^verbatim>\<open>sys.stdin.readline()\<close> does in one pass of the loop: it returns a line, or a
  \<^verbatim>\<open>KeyboardInterrupt\<close> arrives. An empty line is the end of the stream. A loop is
  \<open>Running\<close> in a state, or has \<open>Exited\<close> with the exit status of the process.
\<close>

datatype event = Line string | KeyboardInterrupt

datatype 'w status = Running "'w session" | Exited "'w session" nat

text \<open>
  One pass through the body of \<^verbatim>\<open>while True\<close>. An exception that leaves the inner
  \<^verbatim>\<open>try\<close> reaches the outer \<^verbatim>\<open>except Exception\<close>, which calls \<^verbatim>\<open>sys.exit(1)\<close>.
\<close>

definition loop_iteration ::
  "config \<Rightarrow> python \<Rightarrow> 'w bedrock \<Rightarrow> 'w session \<Rightarrow> event \<Rightarrow> 'w status" where
  "loop_iteration cfg py be st ev =
     (case ev of
        KeyboardInterrupt \<Rightarrow> Exited st 0
      | Line l \<Rightarrow>
         if l = [] then Exited st 0
         else if strip l = [] then Running st
         else
           (case process_line cfg py be st (strip l) of
              (Some e, st') \<Rightarrow> Exited st' 1
            | (None, st') \<Rightarrow> Running st'))"

fun run_events ::
  "config \<Rightarrow> python \<Rightarrow> 'w bedrock \<Rightarrow> 'w session \<Rightarrow> event list \<Rightarrow> 'w status" where
  "run_events cfg py be st [] = Running st"
| "run_events cfg py be st (ev # evs) =
     (case loop_iteration cfg py be st ev of
        Running st' \<Rightarrow> run_events cfg py be st' evs
      | Exited st' code \<Rightarrow> Exited st' code)"

text \<open>
  The whole of \<^verbatim>\<open>run\<close> on the events up to the end of the stream, where
  \<^verbatim>\<open>readline\<close> returns the empty string: the final state and the exit status.
\<close>

definition run_loop ::
  "config \<Rightarrow> python \<Rightarrow> 'w bedrock \<Rightarrow> 'w session \<Rightarrow> event list \<Rightarrow> 'w session \<times> nat" where
  "run_loop cfg py be st evs =
     (case run_events cfg py be st evs of
        Running st' \<Rightarrow> (st', 0)
      | Exited st' code \<Rightarrow> (st', code))"

text \<open>\<^verbatim>\<open>server = MCPServer(); server.run()\<close> in a world \<open>w\<close>.\<close>

definition start :: "'w \<Rightarrow> 'w session" where
  "start w = \<lparr>self = MCPServer_init, request_var = None, stdout = [], world = w\<rparr>"

section \<open>The context block in the words of the specification\<close>




section \<open>Concrete settings for the examples\<close>

text \<open>
  The defaults of the module (simulated mode), and the same settings with the simulated
  mode switched off.
\<close>

definition simulated_config :: config where
  "simulated_config =
     \<lparr>LOCAL_MODE = True, KNOWLEDGE_BASE_ID = ''XQHHIEJ8MA'',
      MODEL_ID = ''anthropic.claude-3-haiku-20240307-v1:0''\<rparr>"

definition live_config :: config where
  "live_config = simulated_config\<lparr>LOCAL_MODE := False\<rparr>"

text \<open>
  A decoder for the examples: it knows the JSON texts listed here, with the values
  \<^verbatim>\<open>json.loads\<close> gives them, and rejects every other text as \<^verbatim>\<open>json.loads\<close>
  rejects the empty text and \<^verbatim>\<open>{not json\<close>. The examples decode no other text.
\<close>

definition tools_list_line :: string where
  \<open>tools_list_line = ''{"id": 4, "method": "tools/list", "params": {}}''\<close>

definition tools_list_request :: "(string \<times> json) list" where
  "tools_list_request =
     [(''id'', JInt 4), (''method'', JStr ''tools/list''), (''params'', JObj [])]"

definition null_arguments_line :: string where
  \<open>null_arguments_line =
     ''{"id": 7, "method": "tools/call", "params": {"name": "query_timber_kb", "arguments": null}}''\<close>

definition null_arguments_request :: "(string \<times> json) list" where
  "null_arguments_request =
     [(''id'', JInt 7), (''method'', JStr ''tools/call''),
      (''params'', JObj [(''name'', JStr ''query_timber_kb''), (''arguments'', JNull)])]"

definition example_lines :: "(string \<times> json) list" where
  "example_lines =
     [(''[]'', JArr []),
      (tools_list_line, JObj tools_list_request),
      (null_arguments_line, JObj null_arguments_request)]"

definition example_python :: python where
  "example_python =
     \<lparr>json_loads = (\<lambda>s. case map_of example_lines s of
                            Some v \<Rightarrow> Inr v
                          | None \<Rightarrow> Inl JSONDecodeError),
      str_value = (\<lambda>v. ''...''),
      str_exn = (\<lambda>e. case e of Raised tag \<Rightarrow> tag | _ \<Rightarrow> ''error'')\<rparr>"

text \<open>
  A text of 100000 opening brackets is no JSON text, and \<^verbatim>\<open>json.loads\<close> does not
  reject it with \<^verbatim>\<open>JSONDecodeError\<close>: the decoder runs out of recursion depth and
  raises \<^verbatim>\<open>RecursionError\<close>. The second decoder of the examples does so on this text
  and agrees with the first on every other.
\<close>

definition deep_line :: string where
  "deep_line = replicate 100000 (CHR ''['')"

definition recursion_python :: python where
  "recursion_python =
     example_python\<lparr>json_loads :=
       (\<lambda>s. if s = deep_line then Inl (Raised ''RecursionError'')
            else json_loads example_python s)\<rparr>"

text \<open>
  Services that answer every call the same way; the world counts the calls made.
\<close>

definition fixed_bedrock :: "(py_exn + json) \<Rightarrow> (py_exn + json) \<Rightarrow> nat bedrock" where
  "fixed_bedrock retrieved generated =
     \<lparr>retrieve = (\<lambda>kwargs w. (retrieved, Suc w)),
      invoke_model = (\<lambda>kwargs w. (generated, Suc w))\<rparr>"

definition no_bedrock :: "nat bedrock" where
  "no_bedrock = fixed_bedrock (Inl (Raised ''no client'')) (Inl (Raised ''no client''))"





definition denied_bedrock :: "nat bedrock" where
  "denied_bedrock =
     fixed_bedrock (Inl (Raised ''AccessDeniedException'')) (Inl (Raised ''AccessDeniedException''))"

text \<open>Decoded requests for the examples of the dispatcher.\<close>

definition ping_request :: "(string \<times> json) list" where
  "ping_request =
     [(''id'', JInt 2), (''method'', JStr ''tools/call''),
      (''params'', JObj [(''name'', JStr ''query_timber_kb''),
                         (''arguments'', JObj [(''query'', JStr ''ping'')])])]"

text \<open>The request of \<^verbatim>\<open>test_q_mcp_connection.py\<close>, as decoded.\<close>

definition knowledge_request :: "(string \<times> json) list" where
  "knowledge_request =
     [(''jsonrpc'', JStr ''2.0''), (''id'', JInt 1), (''method'', JStr ''tools/call''),
      (''params'', JObj [(''name'', JStr ''query_timber_knowledge''),
                         (''arguments'', JObj [(''query'', JStr ''What is Timber?'')])])]"

definition status_request :: "(string \<times> json) list" where
  "status_request =
     [(''jsonrpc'', JStr ''2.0''), (''id'', JInt 4), (''method'', JStr ''tools/call''),
      (''params'', JObj [(''name'', JStr ''get_timber_status''),
                         (''arguments'', JObj [(''service'', JStr ''api'')])])]"

definition no_arguments_request :: "(string \<times> json) list" where
  "no_arguments_request =
     [(''id'', JInt 6), (''method'', JStr ''tools/call''),
      (''params'', JObj [(''name'', JStr ''query_timber_kb'')])]"

definition no_query_request :: "(string \<times> json) list" where
  "no_query_request =
     [(''id'', JInt 8), (''method'', JStr ''tools/call''),
      (''params'', JObj [(''name'', JStr ''query_timber_kb''), (''arguments'', JObj [])])]"

definition resources_request :: "(string \<times> json) list" where
  "resources_request = [(''id'', JInt 5), (''method'', JStr ''resources/list'')]"

definition no_method_request :: "(string \<times> json) list" where
  "no_method_request = [(''id'', JStr ''a'')]"

section \<open>Properties of the backend client\<close>

text \<open>
  Claim C5. In simulated mode, \<open>query_knowledge_base\<close> on a query text makes no external
  call and leaves the world as it was; its answer is the fixed prefix followed by the
  query text, so the text occurs in it; the source is \<open>local_simulation\<close> and the
  confidence is 0.8.
\<close>

theorem simulated_query:
  assumes "LOCAL_MODE cfg"
  shows "query_knowledge_base cfg py be (JStr text) w =
           (JObj [(''response'', JStr (''[LOCAL MODE] Simulated response for: '' @ text)),
                  (''source'', JStr ''local_simulation''),
                  (''confidence'', JFloat 0.8)], [], w)
         \<and> sublist text (''[LOCAL MODE] Simulated response for: '' @ text)"
proof (rule conjI)
  show "query_knowledge_base cfg py be (JStr text) w =
          (JObj [(''response'', JStr (''[LOCAL MODE] Simulated response for: '' @ text)),
                 (''source'', JStr ''local_simulation''),
                 (''confidence'', JFloat 0.8)], [], w)"
    using assms by (simp add: query_knowledge_base_def simulated_answer_def format_value_def)
  show "sublist text (''[LOCAL MODE] Simulated response for: '' @ text)"
    by (rule sublist_append_leftI)
qed

theorem simulated_query_witness:
  "LOCAL_MODE simulated_config
   \<and> query_knowledge_base simulated_config example_python no_bedrock (JStr ''ping'') 0 =
           (JObj [(''response'', JStr ''[LOCAL MODE] Simulated response for: ping''),
                  (''source'', JStr ''local_simulation''),
                  (''confidence'', JFloat 0.8)], [], 0)
   \<and> sublist ''ping'' ''[LOCAL MODE] Simulated response for: ping''"
proof -
  have mode: "LOCAL_MODE simulated_config"
    by (simp add: simulated_config_def)
  show ?thesis
    using mode simulated_query [OF mode, of example_python no_bedrock "''ping''" 0]
    by simp
qed

text \<open>
  Claim C4. In live mode, when the retrieval call returns a response whose
  \<open>retrievalResults\<close> is the empty list (or is absent), the answer is the nothing-found
  record with source \<open>knowledge_base\<close> and confidence 0.0; the only external call made is
  the retrieval, and the world is the one the retrieval left: the generation endpoint is
  not invoked.
\<close>

theorem empty_retrieval:
  assumes "\<not> LOCAL_MODE cfg"
    and "retrieve be (retrieve_kwargs cfg query) w = (Inr (JObj resp), w1)"
    and "get_default resp ''retrievalResults'' (JArr []) = JArr []"
  shows "query_knowledge_base cfg py be query w =
           (JObj [(''response'',
                     JStr ''No relevant information found in the Timber knowledge base.''),
                  (''source'', JStr ''knowledge_base''),
                  (''confidence'', JFloat 0.0)],
            [Retrieve (retrieve_kwargs cfg query)], w1)"
  using assms
  by (simp add: query_knowledge_base_def query_live_def nothing_found_def)

theorem empty_retrieval_witness:
  "\<not> LOCAL_MODE live_config
   \<and> query_knowledge_base live_config example_python
        (fixed_bedrock (Inr (JObj [(''retrievalResults'', JArr [])])) (Inr (JStr ''unused'')))
        (JStr ''ping'') 0 =
           (JObj [(''response'',
                     JStr ''No relevant information found in the Timber knowledge base.''),
                  (''source'', JStr ''knowledge_base''),
                  (''confidence'', JFloat 0.0)],
            [Retrieve (retrieve_kwargs live_config (JStr ''ping''))], 1)"
proof -
  have mode: "\<not> LOCAL_MODE live_config"
    by (simp add: live_config_def simulated_config_def)
  have call: "retrieve (fixed_bedrock (Inr (JObj [(''retrievalResults'', JArr [])]))
                 (Inr (JStr ''unused''))) (retrieve_kwargs live_config (JStr ''ping'')) 0 =
              (Inr (JObj [(''retrievalResults'', JArr [])]), 1)"
    by (simp add: fixed_bedrock_def)
  have none: "get_default [(''retrievalResults'', JArr [])] ''retrievalResults'' (JArr []) = JArr []"
    by (simp add: get_default_def)
  show ?thesis
    using mode empty_retrieval [OF mode call none, of example_python]
    by simp
qed












section \<open>Properties of the dispatcher\<close>

text \<open>
  The Answer Record always has the key \<open>response\<close> first; in simulated mode no call is
  made, in live mode the first call is the retrieval for the query.
\<close>

lemma query_live_shape:
  "\<exists>r more w'. query_live cfg py be query w = (r, Retrieve (retrieve_kwargs cfg query) # more, w')
     \<and> (case r of
           Inl e \<Rightarrow> True
         | Inr answer \<Rightarrow> \<exists>seg rest. answer = JObj ((''response'', seg) # rest))"
  by (simp add: query_live_def Let_def nothing_found_def generated_answer_def
      split: prod.splits sum.splits)

lemma query_knowledge_base_shape:
  "\<exists>seg rest calls w'.
     query_knowledge_base cfg py be query w = (JObj ((''response'', seg) # rest), calls, w')
     \<and> (LOCAL_MODE cfg \<longrightarrow> JObj ((''response'', seg) # rest) = simulated_answer py query \<and> calls = [] \<and> w' = w)
     \<and> (\<not> LOCAL_MODE cfg \<longrightarrow> (\<exists>more. calls = Retrieve (retrieve_kwargs cfg query) # more))"
proof (cases "LOCAL_MODE cfg")
  case True
  then show ?thesis
    by (simp add: query_knowledge_base_def simulated_answer_def)
next
  case False
  obtain r more w' where live: "query_live cfg py be query w =
      (r, Retrieve (retrieve_kwargs cfg query) # more, w')"
    and shape: "case r of Inl e \<Rightarrow> True
         | Inr answer \<Rightarrow> \<exists>seg rest. answer = JObj ((''response'', seg) # rest)"
    using query_live_shape [of cfg py be query w] by blast
  show ?thesis
  proof (cases r)
    case (Inl e)
    with False live show ?thesis
      by (simp add: query_knowledge_base_def error_answer_def)
  next
    case (Inr answer)
    with shape obtain seg rest where "answer = JObj ((''response'', seg) # rest)"
      by auto
    with False live Inr show ?thesis
      by (simp add: query_knowledge_base_def)
  qed
qed

lemma tools_call_dispatch:
  assumes "get_default req ''method'' JNull = JStr ''tools/call''"
    and "get_default req ''params'' (JObj []) = JObj ps"
    and "get_default ps ''name'' JNull = JStr ''query_timber_kb''"
    and "get_default ps ''arguments'' (JObj []) = JObj args"
    and "query_knowledge_base cfg py be (get_default args ''query'' (JStr [])) w =
           (JObj ((''response'', seg) # rest), calls, w')"
  shows "handle_request cfg py be srv (JObj req) w =
           (Inr (result_response (get_default req ''id'' JNull) (tool_result seg)), calls, w')"
  using assms by (simp add: handle_request.simps Let_def)

text \<open>What the \<^verbatim>\<open>try\<close> body of the backend client does when an external call raises.\<close>

lemma query_live_retrieval_raises:
  assumes "retrieve be (retrieve_kwargs cfg query) w = (Inl e, w1)"
  shows "query_live cfg py be query w = (Inl e, [Retrieve (retrieve_kwargs cfg query)], w1)"
  using assms by (simp add: query_live_def)

lemma query_live_generation_raises:
  assumes "retrieve be (retrieve_kwargs cfg query) w = (Inr retrieve_response, w1)"
    and "py_get retrieve_response ''retrievalResults'' (JArr []) = Inr retrieved_results"
    and "truthy retrieved_results"
    and "build_context py retrieved_results = Inr context"
    and "invoke_model be (invoke_kwargs cfg (build_prompt py query context)) w1 = (Inl e, w2)"
  shows "query_live cfg py be query w =
           (Inl e, [Retrieve (retrieve_kwargs cfg query),
                    InvokeModel (invoke_kwargs cfg (build_prompt py query context))], w2)"
  using assms by (simp add: query_live_def)

text \<open>
  Claim C3, as amended. For every \<open>tools/call\<close> request that names \<open>query_timber_kb\<close> and
  whose \<open>arguments\<close> is absent or a dictionary, in both modes and whatever the services
  do, the dispatcher returns a result payload with one text block and \<open>isError\<close> false;
  the text is the \<open>response\<close> of the Answer Record. An exception that leaves the
  \<^verbatim>\<open>try\<close> body becomes the Answer Record with the text of the error, the source
  \<open>error\<close> and the confidence 0.0; an exception of the retrieval call and one of the
  generation call leave the body.
\<close>

theorem registered_tool_call:
  assumes "get_default req ''method'' JNull = JStr ''tools/call''"
    and "get_default req ''params'' (JObj []) = JObj ps"
    and "get_default ps ''name'' JNull = JStr ''query_timber_kb''"
    and "get_default ps ''arguments'' (JObj []) = JObj args"
  shows "(\<exists>seg rest calls w'.
            query_knowledge_base cfg py be (get_default args ''query'' (JStr [])) w =
              (JObj ((''response'', seg) # rest), calls, w')
            \<and> handle_request cfg py be srv (JObj req) w =
              (Inr (JObj [(''jsonrpc'', JStr ''2.0''),
                          (''id'', get_default req ''id'' JNull),
                          (''result'',
                             JObj [(''content'',
                                      JArr [JObj [(''type'', JStr ''text''), (''text'', seg)]]),
                                   (''isError'', JBool False)])]),
               calls, w'))
         \<and> (\<forall>q e calls w'.
               \<not> LOCAL_MODE cfg \<and> query_live cfg py be q w = (Inl e, calls, w') \<longrightarrow>
               query_knowledge_base cfg py be q w =
                 (JObj [(''response'', JStr (''Error querying knowledge base: '' @ str_exn py e)),
                        (''source'', JStr ''error''),
                        (''confidence'', JFloat 0.0)], calls, w'))
         \<and> (\<forall>q e w1.
               retrieve be (retrieve_kwargs cfg q) w = (Inl e, w1) \<longrightarrow>
               query_live cfg py be q w = (Inl e, [Retrieve (retrieve_kwargs cfg q)], w1))
         \<and> (\<forall>q retrieve_response w1 retrieved_results context e w2.
               retrieve be (retrieve_kwargs cfg q) w = (Inr retrieve_response, w1)
               \<and> py_get retrieve_response ''retrievalResults'' (JArr []) = Inr retrieved_results
               \<and> truthy retrieved_results
               \<and> build_context py retrieved_results = Inr context
               \<and> invoke_model be (invoke_kwargs cfg (build_prompt py q context)) w1 = (Inl e, w2)
               \<longrightarrow>
               query_live cfg py be q w =
                 (Inl e, [Retrieve (retrieve_kwargs cfg q),
                          InvokeModel (invoke_kwargs cfg (build_prompt py q context))], w2))"
proof (intro conjI allI impI)
  obtain seg rest calls w' where
    answer: "query_knowledge_base cfg py be (get_default args ''query'' (JStr [])) w =
               (JObj ((''response'', seg) # rest), calls, w')"
    using query_knowledge_base_shape [of cfg py be "get_default args ''query'' (JStr [])" w]
    by (elim exE conjE)
  have "handle_request cfg py be srv (JObj req) w =
          (Inr (JObj [(''jsonrpc'', JStr ''2.0''),
                      (''id'', get_default req ''id'' JNull),
                      (''result'',
                         JObj [(''content'',
                                  JArr [JObj [(''type'', JStr ''text''), (''text'', seg)]]),
                               (''isError'', JBool False)])]),
           calls, w')"
    unfolding tools_call_dispatch [OF assms answer, of srv] result_response_def tool_result_def
    by (rule refl)
  with answer show "\<exists>seg rest calls w'.
            query_knowledge_base cfg py be (get_default args ''query'' (JStr [])) w =
              (JObj ((''response'', seg) # rest), calls, w')
            \<and> handle_request cfg py be srv (JObj req) w =
              (Inr (JObj [(''jsonrpc'', JStr ''2.0''),
                          (''id'', get_default req ''id'' JNull),
                          (''result'',
                             JObj [(''content'',
                                      JArr [JObj [(''type'', JStr ''text''), (''text'', seg)]]),
                                   (''isError'', JBool False)])]),
               calls, w')"
    by (intro exI conjI)
next
  fix q e calls w'
  assume "\<not> LOCAL_MODE cfg \<and> query_live cfg py be q w = (Inl e, calls, w')"
  then show "query_knowledge_base cfg py be q w =
      (JObj [(''response'', JStr (''Error querying knowledge base: '' @ str_exn py e)),
             (''source'', JStr ''error''),
             (''confidence'', JFloat 0.0)], calls, w')"
    by (simp add: query_knowledge_base_def error_answer_def)
next
  fix q e w1
  assume "retrieve be (retrieve_kwargs cfg q) w = (Inl e, w1)"
  then show "query_live cfg py be q w = (Inl e, [Retrieve (retrieve_kwargs cfg q)], w1)"
    by (rule query_live_retrieval_raises)
next
  fix q retrieve_response w1 retrieved_results ctx e w2
  assume reached: "retrieve be (retrieve_kwargs cfg q) w = (Inr retrieve_response, w1)
      \<and> py_get retrieve_response ''retrievalResults'' (JArr []) = Inr retrieved_results
      \<and> truthy retrieved_results
      \<and> build_context py retrieved_results = Inr ctx
      \<and> invoke_model be (invoke_kwargs cfg (build_prompt py q ctx)) w1 = (Inl e, w2)"
  show "query_live cfg py be q w =
      (Inl e, [Retrieve (retrieve_kwargs cfg q),
               InvokeModel (invoke_kwargs cfg (build_prompt py q ctx))], w2)"
    using reached by (elim conjE) (rule query_live_generation_raises)
qed

theorem registered_tool_call_witness:
  "get_default ping_request ''method'' JNull = JStr ''tools/call''
   \<and> get_default ping_request ''params'' (JObj []) =
       JObj [(''name'', JStr ''query_timber_kb''), (''arguments'', JObj [(''query'', JStr ''ping'')])]
   \<and> get_default [(''name'', JStr ''query_timber_kb''),
                   (''arguments'', JObj [(''query'', JStr ''ping'')])] ''name'' JNull =
       JStr ''query_timber_kb''
   \<and> get_default [(''name'', JStr ''query_timber_kb''),
                   (''arguments'', JObj [(''query'', JStr ''ping'')])] ''arguments'' (JObj []) =
       JObj [(''query'', JStr ''ping'')]
   \<and> \<not> LOCAL_MODE live_config
   \<and> retrieve denied_bedrock (retrieve_kwargs live_config (JStr ''ping'')) 0 =
       (Inl (Raised ''AccessDeniedException''), 1)
   \<and> handle_request live_config example_python denied_bedrock MCPServer_init (JObj ping_request) 0 =
       (Inr (JObj [(''jsonrpc'', JStr ''2.0''),
                   (''id'', JInt 2),
                   (''result'',
                      JObj [(''content'',
                               JArr [JObj [(''type'', JStr ''text''),
                                           (''text'', JStr ''Error querying knowledge base: AccessDeniedException'')]]),
                            (''isError'', JBool False)])]),
        [Retrieve (retrieve_kwargs live_config (JStr ''ping''))], 1)"
proof -
  let ?ps = "[(''name'', JStr ''query_timber_kb''), (''arguments'', JObj [(''query'', JStr ''ping'')])]"
  let ?args = "[(''query'', JStr ''ping'')]"
  have h1: "get_default ping_request ''method'' JNull = JStr ''tools/call''"
    by (simp add: ping_request_def get_default_def)
  have h2: "get_default ping_request ''params'' (JObj []) = JObj ?ps"
    by (simp add: ping_request_def get_default_def)
  have h3: "get_default ?ps ''name'' JNull = JStr ''query_timber_kb''"
    by (simp add: get_default_def)
  have h4: "get_default ?ps ''arguments'' (JObj []) = JObj ?args"
    by (simp add: get_default_def)
  have mode: "\<not> LOCAL_MODE live_config"
    by (simp add: live_config_def simulated_config_def)
  have raised: "retrieve denied_bedrock (retrieve_kwargs live_config (JStr ''ping'')) 0 =
       (Inl (Raised ''AccessDeniedException''), 1)"
    by (simp add: denied_bedrock_def fixed_bedrock_def)
  note T = registered_tool_call [OF h1 h2 h3 h4, where cfg = live_config and py = example_python
      and be = denied_bedrock and w = 0 and srv = MCPServer_init]
  note part1 = T [THEN conjunct1]
  note part2 = T [THEN conjunct2, THEN conjunct1, rule_format]
  note part3 = T [THEN conjunct2, THEN conjunct2, THEN conjunct1, rule_format]
  have live: "query_live live_config example_python denied_bedrock (JStr ''ping'') 0 =
       (Inl (Raised ''AccessDeniedException''),
        [Retrieve (retrieve_kwargs live_config (JStr ''ping''))], 1)"
    by (rule part3 [OF raised])
  have answer: "query_knowledge_base live_config example_python denied_bedrock (JStr ''ping'') 0 =
       (JObj [(''response'', JStr (''Error querying knowledge base: ''
                 @ str_exn example_python (Raised ''AccessDeniedException''))),
              (''source'', JStr ''error''),
              (''confidence'', JFloat 0.0)],
        [Retrieve (retrieve_kwargs live_config (JStr ''ping''))], 1)"
    by (rule part2) (rule conjI [OF mode live])
  from part1 obtain seg rest calls w' where
    a: "query_knowledge_base live_config example_python denied_bedrock
          (get_default ?args ''query'' (JStr [])) 0 = (JObj ((''response'', seg) # rest), calls, w')"
    and h: "handle_request live_config example_python denied_bedrock MCPServer_init
          (JObj ping_request) 0 =
        (Inr (JObj [(''jsonrpc'', JStr ''2.0''),
                    (''id'', get_default ping_request ''id'' JNull),
                    (''result'',
                       JObj [(''content'',
                                JArr [JObj [(''type'', JStr ''text''), (''text'', seg)]]),
                             (''isError'', JBool False)])]),
         calls, w')"
    by (elim exE conjE)
  have q: "get_default ?args ''query'' (JStr []) = JStr ''ping''"
    by (simp add: get_default_def)
  have i: "get_default ping_request ''id'' JNull = JInt 2"
    by (simp add: ping_request_def get_default_def)
  from a have "seg = JStr ''Error querying knowledge base: AccessDeniedException''
      \<and> calls = [Retrieve (retrieve_kwargs live_config (JStr ''ping''))] \<and> w' = 1"
    unfolding q answer by (simp add: example_python_def)
  with h i have "handle_request live_config example_python denied_bedrock MCPServer_init
          (JObj ping_request) 0 =
       (Inr (JObj [(''jsonrpc'', JStr ''2.0''),
                   (''id'', JInt 2),
                   (''result'',
                      JObj [(''content'',
                               JArr [JObj [(''type'', JStr ''text''),
                                           (''text'', JStr ''Error querying knowledge base: AccessDeniedException'')]]),
                            (''isError'', JBool False)])]),
        [Retrieve (retrieve_kwargs live_config (JStr ''ping''))], 1)"
    by simp
  then show ?thesis
    using h1 h2 h3 h4 mode raised by simp
qed

text \<open>
  The claim as first stated covers every \<open>tools/call\<close> request that names the tool. A
  request whose \<open>arguments\<close> is \<^verbatim>\<open>null\<close> makes the dispatcher raise, and the session
  answers with the error payload of the internal-error kind.
\<close>

lemma strip_null_arguments_line: "strip (null_arguments_line @ ''\<newline>'') = null_arguments_line"
  by (simp add: strip_def py_isspace_def null_arguments_line_def)

theorem registered_tool_call_counterexample:
  "json_loads example_python (strip (null_arguments_line @ ''\<newline>'')) =
     Inr (JObj null_arguments_request)
   \<and> get_default null_arguments_request ''method'' JNull = JStr ''tools/call''
   \<and> get_default null_arguments_request ''params'' (JObj []) =
       JObj [(''name'', JStr ''query_timber_kb''), (''arguments'', JNull)]
   \<and> handle_request simulated_config example_python no_bedrock MCPServer_init
         (JObj null_arguments_request) 0 = (Inl AttributeError, [], 0)
   \<and> run_loop simulated_config example_python no_bedrock (start 0)
         [Line (null_arguments_line @ ''\<newline>'')] =
       (\<lparr>self = MCPServer_init, request_var = Some (JObj null_arguments_request),
         stdout = [JObj [(''jsonrpc'', JStr ''2.0''), (''id'', JInt 7),
                         (''error'', JObj [(''code'', JInt (- 32603)),
                                           (''message'', JStr ''Internal error'')])]],
         world = 0\<rparr>, 0)"
proof -
  have decoded: "json_loads example_python null_arguments_line = Inr (JObj null_arguments_request)"
    by (simp add: example_python_def example_lines_def null_arguments_line_def tools_list_line_def)
  have raised: "handle_request simulated_config example_python no_bedrock MCPServer_init
         (JObj null_arguments_request) 0 = (Inl AttributeError, [], 0)"
    by (simp add: handle_request.simps null_arguments_request_def get_default_def)
  have nonblank: "null_arguments_line \<noteq> []"
    by (simp add: null_arguments_line_def)
  have line: "process_line simulated_config example_python no_bedrock (start 0) null_arguments_line =
      (None, \<lparr>self = MCPServer_init, request_var = Some (JObj null_arguments_request),
         stdout = [error_response (JInt 7) (- 32603) ''Internal error''], world = 0\<rparr>)"
  proof -
    have i: "get_default null_arguments_request ''id'' JNull = JInt 7"
      by (simp add: null_arguments_request_def get_default_def)
    show ?thesis
      by (simp add: process_line_def decoded start_def raised except_clauses_def
          internal_error_def py_print_def i Let_def)
  qed
  have "run_loop simulated_config example_python no_bedrock (start 0)
         [Line (null_arguments_line @ ''\<newline>'')] =
       (\<lparr>self = MCPServer_init, request_var = Some (JObj null_arguments_request),
         stdout = [error_response (JInt 7) (- 32603) ''Internal error''], world = 0\<rparr>, 0)"
    by (simp add: run_loop_def loop_iteration_def strip_null_arguments_line nonblank line)
  then show ?thesis
    using decoded raised
    by (simp add: strip_null_arguments_line error_response_def)
      (simp add: null_arguments_request_def get_default_def)
qed

text \<open>
  Claim C10. For every \<open>tools/call\<close> request that names \<open>query_timber_kb\<close> and whose
  params have no \<open>arguments\<close>, or whose \<open>arguments\<close> dictionary has no \<open>query\<close>, the
  dispatcher calls the backend client with the empty string and returns a result payload
  with \<open>isError\<close> false that carries the client's answer: in simulated mode the
  placeholder for the empty string, with no external call; in live mode the first
  external call is the retrieval with the empty string as its text.
\<close>

theorem missing_query_defaults:
  assumes "get_default req ''method'' JNull = JStr ''tools/call''"
    and "get_default req ''params'' (JObj []) = JObj ps"
    and "get_default ps ''name'' JNull = JStr ''query_timber_kb''"
    and "map_of ps ''arguments'' = None
         \<or> (\<exists>args. map_of ps ''arguments'' = Some (JObj args) \<and> map_of args ''query'' = None)"
  shows "\<exists>seg rest calls w'.
           query_knowledge_base cfg py be (JStr []) w =
             (JObj ((''response'', seg) # rest), calls, w')
           \<and> handle_request cfg py be srv (JObj req) w =
             (Inr (JObj [(''jsonrpc'', JStr ''2.0''),
                         (''id'', get_default req ''id'' JNull),
                         (''result'',
                            JObj [(''content'',
                                     JArr [JObj [(''type'', JStr ''text''), (''text'', seg)]]),
                                  (''isError'', JBool False)])]),
              calls, w')
           \<and> (LOCAL_MODE cfg \<longrightarrow>
                seg = JStr ''[LOCAL MODE] Simulated response for: '' \<and> calls = [] \<and> w' = w)
           \<and> (\<not> LOCAL_MODE cfg \<longrightarrow>
                (\<exists>more. calls =
                   Retrieve
                     (JObj [(''knowledgeBaseId'', JStr (KNOWLEDGE_BASE_ID cfg)),
                            (''retrievalQuery'', JObj [(''text'', JStr [])]),
                            (''retrievalConfiguration'',
                               JObj [(''vectorSearchConfiguration'',
                                      JObj [(''numberOfResults'', JInt 5)])])]) # more))"
proof -
  from assms(4) obtain args where
    args: "get_default ps ''arguments'' (JObj []) = JObj args"
    and query: "get_default args ''query'' (JStr []) = JStr []"
    by (auto simp: get_default_def)
  obtain seg rest calls w' where
    answer: "query_knowledge_base cfg py be (JStr []) w =
               (JObj ((''response'', seg) # rest), calls, w')"
    and simulated: "LOCAL_MODE cfg \<longrightarrow>
        JObj ((''response'', seg) # rest) = simulated_answer py (JStr []) \<and> calls = [] \<and> w' = w"
    and live: "\<not> LOCAL_MODE cfg \<longrightarrow>
        (\<exists>more. calls = Retrieve (retrieve_kwargs cfg (JStr [])) # more)"
    using query_knowledge_base_shape [of cfg py be "JStr []" w] by (elim exE conjE)
  from answer have answer': "query_knowledge_base cfg py be (get_default args ''query'' (JStr [])) w =
               (JObj ((''response'', seg) # rest), calls, w')"
    by (simp only: query)
  have response: "handle_request cfg py be srv (JObj req) w =
             (Inr (JObj [(''jsonrpc'', JStr ''2.0''),
                         (''id'', get_default req ''id'' JNull),
                         (''result'',
                            JObj [(''content'',
                                     JArr [JObj [(''type'', JStr ''text''), (''text'', seg)]]),
                                  (''isError'', JBool False)])]),
              calls, w')"
    unfolding tools_call_dispatch [OF assms(1-3) args answer', of srv]
      result_response_def tool_result_def
    by (rule refl)
  have sim: "LOCAL_MODE cfg \<longrightarrow>
      seg = JStr ''[LOCAL MODE] Simulated response for: '' \<and> calls = [] \<and> w' = w"
    using simulated by (simp add: simulated_answer_def format_value_def)
  have liv: "\<not> LOCAL_MODE cfg \<longrightarrow>
                (\<exists>more. calls =
                   Retrieve
                     (JObj [(''knowledgeBaseId'', JStr (KNOWLEDGE_BASE_ID cfg)),
                            (''retrievalQuery'', JObj [(''text'', JStr [])]),
                            (''retrievalConfiguration'',
                               JObj [(''vectorSearchConfiguration'',
                                      JObj [(''numberOfResults'', JInt 5)])])]) # more)"
    using live by (simp add: retrieve_kwargs_def)
  show ?thesis
    using answer response sim liv by (intro exI conjI)
qed


theorem missing_query_defaults_witness:
  "get_default no_arguments_request ''method'' JNull = JStr ''tools/call''
   \<and> get_default no_arguments_request ''params'' (JObj []) = JObj [(''name'', JStr ''query_timber_kb'')]
   \<and> get_default [(''name'', JStr ''query_timber_kb'')] ''name'' JNull = JStr ''query_timber_kb''
   \<and> map_of [(''name'', JStr ''query_timber_kb'')] ''arguments'' = None
   \<and> LOCAL_MODE simulated_config
   \<and> handle_request simulated_config example_python no_bedrock MCPServer_init
         (JObj no_arguments_request) 0 =
       (Inr (JObj [(''jsonrpc'', JStr ''2.0''),
                   (''id'', JInt 6),
                   (''result'',
                      JObj [(''content'',
                               JArr [JObj [(''type'', JStr ''text''),
                                           (''text'', JStr ''[LOCAL MODE] Simulated response for: '')]]),
                            (''isError'', JBool False)])]),
        [], 0)
   \<and> get_default no_query_request ''method'' JNull = JStr ''tools/call''
   \<and> get_default no_query_request ''params'' (JObj []) =
       JObj [(''name'', JStr ''query_timber_kb''), (''arguments'', JObj [])]
   \<and> map_of [(''name'', JStr ''query_timber_kb''), (''arguments'', JObj [])] ''arguments'' =
       Some (JObj [])
   \<and> map_of [] ''query'' = (None :: json option)
   \<and> \<not> LOCAL_MODE live_config
   \<and> handle_request live_config example_python denied_bedrock MCPServer_init
         (JObj no_query_request) 0 =
       (Inr (JObj [(''jsonrpc'', JStr ''2.0''),
                   (''id'', JInt 8),
                   (''result'',
                      JObj [(''content'',
                               JArr [JObj [(''type'', JStr ''text''),
                                           (''text'', JStr ''Error querying knowledge base: AccessDeniedException'')]]),
                            (''isError'', JBool False)])]),
        [Retrieve (retrieve_kwargs live_config (JStr []))], 1)"
proof -
  let ?ps = "[(''name'', JStr ''query_timber_kb'')]"
  let ?qs = "[(''name'', JStr ''query_timber_kb''), (''arguments'', JObj [])]"
  have a1: "get_default no_arguments_request ''method'' JNull = JStr ''tools/call''"
    by (simp add: no_arguments_request_def get_default_def)
  have a2: "get_default no_arguments_request ''params'' (JObj []) = JObj ?ps"
    by (simp add: no_arguments_request_def get_default_def)
  have a3: "get_default ?ps ''name'' JNull = JStr ''query_timber_kb''"
    by (simp add: get_default_def)
  have a4: "map_of ?ps ''arguments'' = None"
    by simp
  have a5: "map_of ?ps ''arguments'' = None
         \<or> (\<exists>args. map_of ?ps ''arguments'' = Some (JObj args) \<and> map_of args ''query'' = None)"
    using a4 by (rule disjI1)
  have ai: "get_default no_arguments_request ''id'' JNull = JInt 6"
    by (simp add: no_arguments_request_def get_default_def)
  have simulated: "LOCAL_MODE simulated_config"
    by (simp add: simulated_config_def)
  from missing_query_defaults [OF a1 a2 a3 a5, of simulated_config example_python no_bedrock 0
      MCPServer_init]
  obtain seg calls w' where
    "handle_request simulated_config example_python no_bedrock MCPServer_init
         (JObj no_arguments_request) 0 =
       (Inr (JObj [(''jsonrpc'', JStr ''2.0''),
                   (''id'', get_default no_arguments_request ''id'' JNull),
                   (''result'',
                      JObj [(''content'',
                               JArr [JObj [(''type'', JStr ''text''), (''text'', seg)]]),
                            (''isError'', JBool False)])]),
        calls, w')"
    and "LOCAL_MODE simulated_config \<longrightarrow>
        seg = JStr ''[LOCAL MODE] Simulated response for: '' \<and> calls = [] \<and> w' = 0"
    by (elim exE conjE)
  with simulated have first: "handle_request simulated_config example_python no_bedrock
         MCPServer_init (JObj no_arguments_request) 0 =
       (Inr (JObj [(''jsonrpc'', JStr ''2.0''),
                   (''id'', JInt 6),
                   (''result'',
                      JObj [(''content'',
                               JArr [JObj [(''type'', JStr ''text''),
                                           (''text'', JStr ''[LOCAL MODE] Simulated response for: '')]]),
                            (''isError'', JBool False)])]),
        [], 0)"
    by (simp add: ai)
  have b1: "get_default no_query_request ''method'' JNull = JStr ''tools/call''"
    by (simp add: no_query_request_def get_default_def)
  have b2: "get_default no_query_request ''params'' (JObj []) = JObj ?qs"
    by (simp add: no_query_request_def get_default_def)
  have b3: "get_default ?qs ''name'' JNull = JStr ''query_timber_kb''"
    by (simp add: get_default_def)
  have b4: "map_of ?qs ''arguments'' = Some (JObj [])"
    by simp
  have b5: "map_of ?qs ''arguments'' = None
         \<or> (\<exists>args. map_of ?qs ''arguments'' = Some (JObj args) \<and> map_of args ''query'' = None)"
    using b4 by simp
  have bi: "get_default no_query_request ''id'' JNull = JInt 8"
    by (simp add: no_query_request_def get_default_def)
  have live: "\<not> LOCAL_MODE live_config"
    by (simp add: live_config_def simulated_config_def)
  have answer: "query_knowledge_base live_config example_python denied_bedrock (JStr []) 0 =
      (JObj [(''response'', JStr ''Error querying knowledge base: AccessDeniedException''),
             (''source'', JStr ''error''), (''confidence'', JFloat 0.0)],
       [Retrieve (retrieve_kwargs live_config (JStr []))], 1)"
    using live
    by (simp add: query_knowledge_base_def query_live_def denied_bedrock_def fixed_bedrock_def
        error_answer_def example_python_def)
  from missing_query_defaults [OF b1 b2 b3 b5, of live_config example_python denied_bedrock 0
      MCPServer_init]
  obtain seg rest calls w' where
    "query_knowledge_base live_config example_python denied_bedrock (JStr []) 0 =
       (JObj ((''response'', seg) # rest), calls, w')"
    and "handle_request live_config example_python denied_bedrock MCPServer_init
         (JObj no_query_request) 0 =
       (Inr (JObj [(''jsonrpc'', JStr ''2.0''),
                   (''id'', get_default no_query_request ''id'' JNull),
                   (''result'',
                      JObj [(''content'',
                               JArr [JObj [(''type'', JStr ''text''), (''text'', seg)]]),
                            (''isError'', JBool False)])]),
        calls, w')"
    by (elim exE conjE)
  then have second: "handle_request live_config example_python denied_bedrock MCPServer_init
         (JObj no_query_request) 0 =
       (Inr (JObj [(''jsonrpc'', JStr ''2.0''),
                   (''id'', JInt 8),
                   (''result'',
                      JObj [(''content'',
                               JArr [JObj [(''type'', JStr ''text''),
                                           (''text'', JStr ''Error querying knowledge base: AccessDeniedException'')]]),
                            (''isError'', JBool False)])]),
        [Retrieve (retrieve_kwargs live_config (JStr []))], 1)"
    by (simp add: answer bi)
  show ?thesis
    using a1 a2 a3 a4 simulated first b1 b2 b4 live second by simp
qed

text \<open>
  A \<open>tools/call\<close> request whose params name any tool other than \<open>query_timber_kb\<close> (or
  no tool) leaves the branch without a response, since the test of the tool name has no
  alternative, and reaches the default response for unhandled methods.
\<close>

lemma unknown_tool_falls_through:
  assumes "get_default req ''method'' JNull = JStr ''tools/call''"
    and "get_default req ''params'' (JObj []) = JObj ps"
    and "get_default ps ''name'' JNull \<noteq> JStr ''query_timber_kb''"
  shows "handle_request cfg py be srv (JObj req) w =
           (Inr (JObj [(''jsonrpc'', JStr ''2.0''),
                       (''id'', get_default req ''id'' JNull),
                       (''error'', JObj [(''code'', JInt (- 32601)),
                                         (''message'', JStr ''Method not found: tools/call'')])]),
            [], w)"
  using assms
  by (simp add: handle_request.simps Let_def method_not_found_def error_response_def
      format_value_def)

text \<open>
  Claim C1 fails on the code. The request of \<^verbatim>\<open>test_q_mcp_connection.py\<close> names the
  tool \<open>query_timber_knowledge\<close>, which the registry does not hold. The claim asks for a
  result payload that says the tool is unknown, and the script accepts only a response
  with \<open>result\<close> and \<open>content\<close>. The dispatcher returns the error payload -32601 with the
  message \<open>Method not found: tools/call\<close>, which has no \<open>result\<close>; the request for
  \<open>get_timber_status\<close> of \<^verbatim>\<open>test_mcp_complete.py\<close> fares the same.
\<close>

theorem unregistered_tool_request:
  "get_default knowledge_request ''method'' JNull = JStr ''tools/call''
   \<and> map_of (tools MCPServer_init) ''query_timber_knowledge'' = None
   \<and> handle_request simulated_config example_python no_bedrock MCPServer_init
         (JObj knowledge_request) 0 =
       (Inr (JObj [(''jsonrpc'', JStr ''2.0''),
                   (''id'', JInt 1),
                   (''error'', JObj [(''code'', JInt (- 32601)),
                                     (''message'', JStr ''Method not found: tools/call'')])]),
        [], 0)
   \<and> getitem_key (JObj [(''jsonrpc'', JStr ''2.0''),
                         (''id'', JInt 1),
                         (''error'', JObj [(''code'', JInt (- 32601)),
                                           (''message'', JStr ''Method not found: tools/call'')])])
         ''result'' = Inl KeyError
   \<and> map_of (tools MCPServer_init) ''get_timber_status'' = None
   \<and> handle_request simulated_config example_python no_bedrock MCPServer_init
         (JObj status_request) 0 =
       (Inr (JObj [(''jsonrpc'', JStr ''2.0''),
                   (''id'', JInt 4),
                   (''error'', JObj [(''code'', JInt (- 32601)),
                                     (''message'', JStr ''Method not found: tools/call'')])]),
        [], 0)"
  by (simp add: handle_request.simps Let_def knowledge_request_def status_request_def
      get_default_def method_not_found_def error_response_def format_value_def MCPServer_init_def)

text \<open>
  Claim C8. For every request dictionary whose method is none of \<open>initialize\<close>,
  \<open>tools/list\<close> and \<open>tools/call\<close>, the response is the error payload of the
  method-not-found kind, code -32601, and its id is the request's id: the value under
  \<open>id\<close>, or \<^verbatim>\<open>None\<close> when the request has none. A request with no method counts: its
  method reads as \<^verbatim>\<open>None\<close>.
\<close>

theorem unknown_method:
  assumes "get_default req ''method'' JNull \<noteq> JStr ''initialize''"
    and "get_default req ''method'' JNull \<noteq> JStr ''tools/list''"
    and "get_default req ''method'' JNull \<noteq> JStr ''tools/call''"
  shows "handle_request cfg py be srv (JObj req) w =
           (Inr (JObj [(''jsonrpc'', JStr ''2.0''),
                       (''id'', get_default req ''id'' JNull),
                       (''error'',
                          JObj [(''code'', JInt (- 32601)),
                                (''message'',
                                   JStr (''Method not found: ''
                                         @ format_value py (get_default req ''method'' JNull)))])]),
            [], w)
         \<and> (map_of req ''method'' = None \<longrightarrow>
              get_default req ''method'' JNull = JNull
              \<and> format_value py (get_default req ''method'' JNull) = ''None'')
         \<and> (map_of req ''id'' = None \<longrightarrow> get_default req ''id'' JNull = JNull)
         \<and> (\<forall>i. map_of req ''id'' = Some i \<longrightarrow> get_default req ''id'' JNull = i)"
  using assms
  by (simp add: handle_request.simps Let_def method_not_found_def error_response_def
      get_default_def format_value_def)


theorem unknown_method_witness:
  "get_default resources_request ''method'' JNull \<noteq> JStr ''initialize''
   \<and> get_default resources_request ''method'' JNull \<noteq> JStr ''tools/list''
   \<and> get_default resources_request ''method'' JNull \<noteq> JStr ''tools/call''
   \<and> handle_request simulated_config example_python no_bedrock MCPServer_init
         (JObj resources_request) 0 =
       (Inr (JObj [(''jsonrpc'', JStr ''2.0''),
                   (''id'', JInt 5),
                   (''error'', JObj [(''code'', JInt (- 32601)),
                                     (''message'', JStr ''Method not found: resources/list'')])]),
        [], 0)
   \<and> map_of no_method_request ''method'' = None
   \<and> handle_request simulated_config example_python no_bedrock MCPServer_init
         (JObj no_method_request) 0 =
       (Inr (JObj [(''jsonrpc'', JStr ''2.0''),
                   (''id'', JStr ''a''),
                   (''error'', JObj [(''code'', JInt (- 32601)),
                                     (''message'', JStr ''Method not found: None'')])]),
        [], 0)"
proof -
  have m: "get_default resources_request ''method'' JNull = JStr ''resources/list''"
    by (simp add: resources_request_def get_default_def)
  have i: "get_default resources_request ''id'' JNull = JInt 5"
    by (simp add: resources_request_def get_default_def)
  have h1: "get_default resources_request ''method'' JNull \<noteq> JStr ''initialize''"
    and h2: "get_default resources_request ''method'' JNull \<noteq> JStr ''tools/list''"
    and h3: "get_default resources_request ''method'' JNull \<noteq> JStr ''tools/call''"
    by (simp_all add: m)
  have n: "get_default no_method_request ''method'' JNull = JNull"
    by (simp add: no_method_request_def get_default_def)
  have j: "get_default no_method_request ''id'' JNull = JStr ''a''"
    by (simp add: no_method_request_def get_default_def)
  have k1: "get_default no_method_request ''method'' JNull \<noteq> JStr ''initialize''"
    and k2: "get_default no_method_request ''method'' JNull \<noteq> JStr ''tools/list''"
    and k3: "get_default no_method_request ''method'' JNull \<noteq> JStr ''tools/call''"
    by (simp_all add: n)
  have absent: "map_of no_method_request ''method'' = None"
    by (simp add: no_method_request_def)
  show ?thesis
    using h1 h2 h3 absent
      unknown_method [OF h1 h2 h3, of simulated_config example_python no_bedrock MCPServer_init 0,
        THEN conjunct1]
      unknown_method [OF k1 k2 k3, of simulated_config example_python no_bedrock MCPServer_init 0,
        THEN conjunct1]
    by (simp add: m i n j format_value_def)
qed

section \<open>Properties of the session loop\<close>

text \<open>No pass through the loop changes the server object, so the registry stays as built.\<close>

lemma strip_Nil: "strip [] = []"
  by (simp add: strip_def)

lemma except_clauses_self: "self (snd (except_clauses st e)) = self st"
  by (simp add: except_clauses_def internal_error_def py_print_def split: option.splits sum.splits)

lemma process_line_self: "self (snd (process_line cfg py be st line)) = self st"
  by (simp add: process_line_def Let_def py_print_def except_clauses_self
      split: sum.splits prod.splits)

lemma loop_iteration_self:
  assumes "loop_iteration cfg py be st ev = Running st'"
  shows "self st' = self st"
proof (cases ev)
  case KeyboardInterrupt
  with assms show ?thesis by (simp add: loop_iteration_def)
next
  case (Line l)
  show ?thesis
  proof (cases "l = [] \<or> strip l = []")
    case True
    with assms Line show ?thesis
      by (auto simp: loop_iteration_def split: if_splits)
  next
    case False
    with assms Line have "snd (process_line cfg py be st (strip l)) = st'"
      by (auto simp: loop_iteration_def split: prod.splits option.splits)
    then show ?thesis
      using process_line_self [of cfg py be st "strip l"] by simp
  qed
qed

lemma run_events_self:
  "run_events cfg py be st evs = Running st' \<Longrightarrow> self st' = self st"
proof (induction evs arbitrary: st)
  case Nil
  then show ?case by simp
next
  case (Cons ev evs)
  show ?case
  proof (cases "loop_iteration cfg py be st ev")
    case (Running st1)
    with Cons.prems have "run_events cfg py be st1 evs = Running st'"
      by simp
    then have "self st' = self st1"
      by (rule Cons.IH)
    with loop_iteration_self [OF Running] show ?thesis
      by simp
  next
    case (Exited st1 code)
    with Cons.prems show ?thesis by simp
  qed
qed

text \<open>One pass on a line that decodes to a \<open>tools/list\<close> request.\<close>

lemma tools_list_iteration:
  assumes "strip l \<noteq> []"
    and "json_loads py (strip l) = Inr (JObj req)"
    and "get_default req ''method'' JNull = JStr ''tools/list''"
  shows "loop_iteration cfg py be st (Line l) =
           Running (st\<lparr>request_var := Some (JObj req),
                       stdout := stdout st @
                         [JObj [(''jsonrpc'', JStr ''2.0''),
                                (''id'', get_default req ''id'' JNull),
                                (''result'', JObj [(''tools'', JArr (map snd (tools (self st))))])]]\<rparr>)"
proof -
  from assms(1) have "l \<noteq> []"
    using strip_Nil by auto
  with assms show ?thesis
    by (simp add: loop_iteration_def process_line_def handle_request.simps Let_def py_print_def
        result_response_def)
qed

lemma strip_not_json: "strip ''{not json\<newline>'' = ''{not json''"
  by (simp add: strip_def py_isspace_def)

lemma loads_not_json: "json_loads example_python ''{not json'' = Inl JSONDecodeError"
  by (simp add: example_python_def example_lines_def tools_list_line_def null_arguments_line_def)

lemma strip_tools_list_line: "strip (tools_list_line @ ''\<newline>'') = tools_list_line"
  by (simp add: strip_def py_isspace_def tools_list_line_def)

lemma loads_tools_list_line: "json_loads example_python tools_list_line = Inr (JObj tools_list_request)"
  by (simp add: example_python_def example_lines_def tools_list_line_def)

lemma tools_list_line_nonblank: "tools_list_line \<noteq> []"
  by (simp add: tools_list_line_def)

text \<open>
  Claim C9. In one session, take a \<open>tools/list\<close> request read in a state \<open>st1\<close> and the
  same line read again in any later state \<open>st2\<close> of that session. Both passes print the
  same response: the request's id and the result payload that lists the registry the
  session started with. The registry in both states is the one of the start.
\<close>

theorem tools_list_repeatable:
  assumes first: "run_events cfg py be st0 evs1 = Running st1"
    and second: "run_events cfg py be st1 (Line l # evs2) = Running st2"
    and nonblank: "strip l \<noteq> []"
    and decoded: "json_loads py (strip l) = Inr (JObj req)"
    and tools_list: "get_default req ''method'' JNull = JStr ''tools/list''"
  shows "loop_iteration cfg py be st1 (Line l) =
           Running (st1\<lparr>request_var := Some (JObj req),
                        stdout := stdout st1 @
                          [JObj [(''jsonrpc'', JStr ''2.0''),
                                 (''id'', get_default req ''id'' JNull),
                                 (''result'',
                                    JObj [(''tools'', JArr (map snd (tools (self st0))))])]]\<rparr>)
         \<and> loop_iteration cfg py be st2 (Line l) =
           Running (st2\<lparr>request_var := Some (JObj req),
                        stdout := stdout st2 @
                          [JObj [(''jsonrpc'', JStr ''2.0''),
                                 (''id'', get_default req ''id'' JNull),
                                 (''result'',
                                    JObj [(''tools'', JArr (map snd (tools (self st0))))])]]\<rparr>)
         \<and> tools (self st1) = tools (self st0)
         \<and> tools (self st2) = tools (self st0)"
proof -
  have s1: "self st1 = self st0"
    using first by (rule run_events_self)
  have s2: "self st2 = self st1"
    using second by (rule run_events_self)
  show ?thesis
    using tools_list_iteration [OF nonblank decoded tools_list, of cfg be st1]
      tools_list_iteration [OF nonblank decoded tools_list, of cfg be st2]
    by (simp add: s1 s2)
qed

theorem tools_list_repeatable_witness:
  "run_events simulated_config example_python no_bedrock (start 0) [Line ''\<newline>''] =
     Running (start 0)
   \<and> run_events simulated_config example_python no_bedrock (start 0)
        [Line (tools_list_line @ ''\<newline>''), Line ''{not json\<newline>''] =
     Running \<lparr>self = MCPServer_init, request_var = Some (JObj tools_list_request),
              stdout = [JObj [(''jsonrpc'', JStr ''2.0''), (''id'', JInt 4),
                              (''result'', JObj [(''tools'', JArr (map snd (tools MCPServer_init)))])],
                        JObj [(''jsonrpc'', JStr ''2.0''), (''id'', JNull),
                              (''error'', JObj [(''code'', JInt (- 32700)),
                                                (''message'', JStr ''Parse error'')])]],
              world = 0\<rparr>
   \<and> strip (tools_list_line @ ''\<newline>'') \<noteq> []
   \<and> json_loads example_python (strip (tools_list_line @ ''\<newline>'')) =
       Inr (JObj tools_list_request)
   \<and> get_default tools_list_request ''method'' JNull = JStr ''tools/list''
   \<and> loop_iteration simulated_config example_python no_bedrock
        \<lparr>self = MCPServer_init, request_var = Some (JObj tools_list_request),
         stdout = [JObj [(''jsonrpc'', JStr ''2.0''), (''id'', JInt 4),
                         (''result'', JObj [(''tools'', JArr (map snd (tools MCPServer_init)))])],
                   JObj [(''jsonrpc'', JStr ''2.0''), (''id'', JNull),
                         (''error'', JObj [(''code'', JInt (- 32700)),
                                           (''message'', JStr ''Parse error'')])]],
         world = 0\<rparr>
        (Line (tools_list_line @ ''\<newline>'')) =
     Running \<lparr>self = MCPServer_init, request_var = Some (JObj tools_list_request),
              stdout = [JObj [(''jsonrpc'', JStr ''2.0''), (''id'', JInt 4),
                              (''result'', JObj [(''tools'', JArr (map snd (tools MCPServer_init)))])],
                        JObj [(''jsonrpc'', JStr ''2.0''), (''id'', JNull),
                              (''error'', JObj [(''code'', JInt (- 32700)),
                                                (''message'', JStr ''Parse error'')])],
                        JObj [(''jsonrpc'', JStr ''2.0''), (''id'', JInt 4),
                              (''result'', JObj [(''tools'', JArr (map snd (tools MCPServer_init)))])]],
              world = 0\<rparr>"
proof -
  let ?listing = "JObj [(''jsonrpc'', JStr ''2.0''), (''id'', JInt 4),
      (''result'', JObj [(''tools'', JArr (map snd (tools MCPServer_init)))])]"
  let ?st2 = "\<lparr>self = MCPServer_init, request_var = Some (JObj tools_list_request),
      stdout = [?listing, error_response JNull (- 32700) ''Parse error''], world = (0::nat)\<rparr>"
  have nonblank: "strip (tools_list_line @ ''\<newline>'') \<noteq> []"
    by (simp add: strip_tools_list_line tools_list_line_nonblank)
  have decoded: "json_loads example_python (strip (tools_list_line @ ''\<newline>'')) =
      Inr (JObj tools_list_request)"
    by (simp only: strip_tools_list_line loads_tools_list_line)
  have m: "get_default tools_list_request ''method'' JNull = JStr ''tools/list''"
    by (simp add: tools_list_request_def get_default_def)
  have i: "get_default tools_list_request ''id'' JNull = JInt 4"
    by (simp add: tools_list_request_def get_default_def)
  have first: "run_events simulated_config example_python no_bedrock (start 0) [Line ''\<newline>''] =
      Running (start 0)"
    by (simp add: loop_iteration_def strip_def py_isspace_def)
  have listed: "loop_iteration simulated_config example_python no_bedrock (start 0)
      (Line (tools_list_line @ ''\<newline>'')) =
      Running \<lparr>self = MCPServer_init, request_var = Some (JObj tools_list_request),
              stdout = [?listing], world = 0\<rparr>"
    using tools_list_iteration [OF nonblank decoded m, of simulated_config no_bedrock "start 0"]
    by (simp add: start_def i)
  have rejected: "loop_iteration simulated_config example_python no_bedrock
      \<lparr>self = MCPServer_init, request_var = Some (JObj tools_list_request),
       stdout = [?listing], world = 0\<rparr> (Line ''{not json\<newline>'') = Running ?st2"
    by (simp add: loop_iteration_def strip_not_json loads_not_json process_line_def
        except_clauses_def py_print_def)
  have second: "run_events simulated_config example_python no_bedrock (start 0)
      [Line (tools_list_line @ ''\<newline>''), Line ''{not json\<newline>''] = Running ?st2"
    by (simp add: listed rejected)
  have "loop_iteration simulated_config example_python no_bedrock ?st2
      (Line (tools_list_line @ ''\<newline>'')) =
      Running (?st2\<lparr>request_var := Some (JObj tools_list_request),
                    stdout := stdout ?st2 @ [?listing]\<rparr>)"
    using tools_list_repeatable [OF first second nonblank decoded m, THEN conjunct2, THEN conjunct1]
    by (simp add: start_def i)
  then show ?thesis
    using first second nonblank decoded m by (simp add: error_response_def)
qed

text \<open>
  In every state a running session reaches, the clause \<^verbatim>\<open>except Exception\<close> can read
  the id: \<^verbatim>\<open>request\<close> is unbound or bound to a dictionary. So a line on which the
  decoder raises anything but \<^verbatim>\<open>JSONDecodeError\<close> gets the internal-error response.
\<close>

lemma except_clauses_request: "request_var (snd (except_clauses st e)) = request_var st"
  by (simp add: except_clauses_def internal_error_def py_print_def split: option.splits sum.splits)

lemma process_line_request:
  "request_var (snd (process_line cfg py be st line)) =
     (case json_loads py line of Inl e \<Rightarrow> request_var st | Inr request \<Rightarrow> Some request)"
  by (simp add: process_line_def Let_def py_print_def except_clauses_request
      split: sum.splits prod.splits)

lemma internal_error_request:
  "request_var st' = request_var st \<Longrightarrow> fst (internal_error st') = fst (internal_error st)"
  by (simp add: internal_error_def split: option.splits sum.splits)

lemma process_line_handler:
  assumes completed: "process_line cfg py be st line = (None, st')"
    and handler: "fst (internal_error st) = None"
  shows "fst (internal_error st') = None"
proof (cases "json_loads py line")
  case (Inl e)
  with process_line_request [of cfg py be st line] completed have "request_var st' = request_var st"
    by simp
  then have "fst (internal_error st') = fst (internal_error st)"
    by (rule internal_error_request)
  with handler show ?thesis
    by simp
next
  case (Inr request)
  with process_line_request [of cfg py be st line] completed have bound: "request_var st' = Some request"
    by simp
  show ?thesis
  proof (cases "py_get request ''id'' JNull")
    case (Inr i)
    with bound show ?thesis
      by (simp add: internal_error_def py_print_def)
  next
    case (Inl e)
    then have "py_get request ''method'' (JStr ''unknown'') = Inl AttributeError"
      and "py_get request ''id'' JNull = Inl AttributeError"
      by (cases request; simp)+
    with \<open>json_loads py line = Inr request\<close> have "fst (process_line cfg py be st line) \<noteq> None"
      by (simp add: process_line_def except_clauses_def internal_error_def)
    with completed show ?thesis by simp
  qed
qed

lemma loop_iteration_handler:
  assumes "loop_iteration cfg py be st ev = Running st'"
    and "fst (internal_error st) = None"
  shows "fst (internal_error st') = None"
proof (cases ev)
  case KeyboardInterrupt
  with assms show ?thesis by (simp add: loop_iteration_def)
next
  case (Line l)
  show ?thesis
  proof (cases "l = [] \<or> strip l = []")
    case True
    with assms Line show ?thesis
      by (auto simp: loop_iteration_def split: if_splits)
  next
    case False
    with assms(1) Line have "process_line cfg py be st (strip l) = (None, st')"
      by (auto simp: loop_iteration_def split: prod.splits option.splits)
    then show ?thesis
      using assms(2) by (rule process_line_handler)
  qed
qed

lemma run_events_handler:
  "run_events cfg py be st evs = Running st' \<Longrightarrow> fst (internal_error st) = None
   \<Longrightarrow> fst (internal_error st') = None"
proof (induction evs arbitrary: st)
  case Nil
  then show ?case by simp
next
  case (Cons ev evs)
  show ?case
  proof (cases "loop_iteration cfg py be st ev")
    case (Running st1)
    with Cons.prems(1) have "run_events cfg py be st1 evs = Running st'"
      by simp
    moreover have "fst (internal_error st1) = None"
      using Running Cons.prems(2) by (rule loop_iteration_handler)
    ultimately show ?thesis
      by (rule Cons.IH)
  next
    case (Exited st1 code)
    with Cons.prems(1) show ?thesis by simp
  qed
qed

lemma start_handler: "fst (internal_error (start w)) = None"
  by (simp add: internal_error_def start_def py_print_def)

lemma internal_error_prints:
  assumes "fst (internal_error st) = None"
  shows "\<exists>i. internal_error st =
           (None, st\<lparr>stdout := stdout st @
                         [JObj [(''jsonrpc'', JStr ''2.0''),
                                (''id'', i),
                                (''error'', JObj [(''code'', JInt (- 32603)),
                                                  (''message'', JStr ''Internal error'')])]]\<rparr>)"
proof (cases "request_var st")
  case None
  then show ?thesis
    by (intro exI [of _ JNull]) (simp add: internal_error_def py_print_def error_response_def)
next
  case (Some request)
  show ?thesis
  proof (cases "py_get request ''id'' JNull")
    case (Inl e)
    with Some assms show ?thesis
      by (simp add: internal_error_def)
  next
    case (Inr i)
    with Some show ?thesis
      by (intro exI [of _ i]) (simp add: internal_error_def py_print_def error_response_def)
  qed
qed

lemma other_exception_iteration:
  assumes "strip l \<noteq> []"
    and "json_loads py (strip l) = Inl e"
    and "e \<noteq> JSONDecodeError"
    and "fst (internal_error st) = None"
  shows "\<exists>i. loop_iteration cfg py be st (Line l) =
           Running (st\<lparr>stdout := stdout st @
                         [JObj [(''jsonrpc'', JStr ''2.0''),
                                (''id'', i),
                                (''error'', JObj [(''code'', JInt (- 32603)),
                                                  (''message'', JStr ''Internal error'')])]]\<rparr>)"
proof -
  from assms(1) have nonempty: "l \<noteq> []"
    using strip_Nil by auto
  have handled: "process_line cfg py be st (strip l) = internal_error st"
    using assms(2,3) by (simp add: process_line_def except_clauses_def)
  have step: "loop_iteration cfg py be st (Line l) =
      (case internal_error st of (Some e, st') \<Rightarrow> Exited st' 1 | (None, st') \<Rightarrow> Running st')"
    using nonempty assms(1) by (simp add: loop_iteration_def handled)
  from internal_error_prints [OF assms(4)] show ?thesis
  proof (elim exE)
    fix i
    assume "internal_error st =
           (None, st\<lparr>stdout := stdout st @
                         [JObj [(''jsonrpc'', JStr ''2.0''),
                                (''id'', i),
                                (''error'', JObj [(''code'', JInt (- 32603)),
                                                  (''message'', JStr ''Internal error'')])]]\<rparr>)"
    then have "loop_iteration cfg py be st (Line l) =
           Running (st\<lparr>stdout := stdout st @
                         [JObj [(''jsonrpc'', JStr ''2.0''),
                                (''id'', i),
                                (''error'', JObj [(''code'', JInt (- 32603)),
                                                  (''message'', JStr ''Internal error'')])]]\<rparr>)"
      by (simp only: step prod.case option.case)
    then show ?thesis
      by (rule exI [of _ i])
  qed
qed

text \<open>The text of 100000 brackets under the second decoder of the examples.\<close>

lemma strip_replicate: "\<not> py_isspace c \<Longrightarrow> strip (replicate n c) = replicate n c"
  by (simp add: strip_def)

lemma strip_deep_line: "strip deep_line = deep_line"
  unfolding deep_line_def by (rule strip_replicate) (simp add: py_isspace_def)

lemma deep_line_nonblank: "deep_line \<noteq> []"
  unfolding deep_line_def by (simp only: replicate_empty)

lemma deep_line_differs: "tools_list_line \<noteq> deep_line"
proof
  assume "tools_list_line = deep_line"
  then have "hd tools_list_line = hd deep_line"
    by (rule arg_cong)
  moreover have "hd deep_line = CHR ''[''"
    unfolding deep_line_def by (rule hd_replicate) simp
  moreover have "hd tools_list_line = CHR ''{''"
    by (simp add: tools_list_line_def)
  ultimately show False
    by simp
qed

lemma loads_deep_line: "json_loads recursion_python deep_line = Inl (Raised ''RecursionError'')"
  by (simp add: recursion_python_def)

lemma recursion_loads_tools_list_line:
  "json_loads recursion_python tools_list_line = Inr (JObj tools_list_request)"
  by (simp add: recursion_python_def deep_line_differs loads_tools_list_line)

text \<open>
  Claim C7, as amended. For every line handed to the decoder (a line that is not blank):
  when \<^verbatim>\<open>json.loads\<close> rejects it with \<^verbatim>\<open>JSONDecodeError\<close>, the pass prints the error
  payload of the parse-error kind, code -32700, with the id \<^verbatim>\<open>None\<close>, changes nothing
  else, and the loop goes on with the next event; when the decoder raises any other
  exception, in any state a session reaches from its start, the pass prints an error
  payload of the internal-error kind, code -32603, and the loop goes on.
\<close>

theorem parse_error_response:
  assumes nonblank: "strip l \<noteq> []"
  shows "(json_loads py (strip l) = Inl JSONDecodeError \<longrightarrow>
            loop_iteration cfg py be st (Line l) =
              Running (st\<lparr>stdout := stdout st @
                            [JObj [(''jsonrpc'', JStr ''2.0''),
                                   (''id'', JNull),
                                   (''error'', JObj [(''code'', JInt (- 32700)),
                                                     (''message'', JStr ''Parse error'')])]]\<rparr>)
            \<and> run_events cfg py be st (Line l # evs) =
              run_events cfg py be
                (st\<lparr>stdout := stdout st @
                      [JObj [(''jsonrpc'', JStr ''2.0''),
                             (''id'', JNull),
                             (''error'', JObj [(''code'', JInt (- 32700)),
                                               (''message'', JStr ''Parse error'')])]]\<rparr>) evs)
         \<and> (\<forall>e w evs0.
               json_loads py (strip l) = Inl e \<and> e \<noteq> JSONDecodeError
               \<and> run_events cfg py be (start w) evs0 = Running st \<longrightarrow>
               (\<exists>i. loop_iteration cfg py be st (Line l) =
                      Running (st\<lparr>stdout := stdout st @
                                    [JObj [(''jsonrpc'', JStr ''2.0''),
                                           (''id'', i),
                                           (''error'', JObj [(''code'', JInt (- 32603)),
                                                             (''message'', JStr ''Internal error'')])]]\<rparr>)))"
proof (intro conjI impI allI)
  assume rejected: "json_loads py (strip l) = Inl JSONDecodeError"
  from nonblank have "l \<noteq> []"
    using strip_Nil by auto
  with nonblank rejected show printed: "loop_iteration cfg py be st (Line l) =
           Running (st\<lparr>stdout := stdout st @
                         [JObj [(''jsonrpc'', JStr ''2.0''),
                                (''id'', JNull),
                                (''error'', JObj [(''code'', JInt (- 32700)),
                                                  (''message'', JStr ''Parse error'')])]]\<rparr>)"
    by (simp add: loop_iteration_def process_line_def except_clauses_def py_print_def
        error_response_def)
  then show "run_events cfg py be st (Line l # evs) =
              run_events cfg py be
                (st\<lparr>stdout := stdout st @
                      [JObj [(''jsonrpc'', JStr ''2.0''),
                             (''id'', JNull),
                             (''error'', JObj [(''code'', JInt (- 32700)),
                                               (''message'', JStr ''Parse error'')])]]\<rparr>) evs"
    by simp
next
  fix e w evs0
  assume other: "json_loads py (strip l) = Inl e \<and> e \<noteq> JSONDecodeError
      \<and> run_events cfg py be (start w) evs0 = Running st"
  then have "fst (internal_error st) = None"
    using run_events_handler [OF _ start_handler, of cfg py be w evs0 st] by simp
  with nonblank other show "\<exists>i. loop_iteration cfg py be st (Line l) =
                      Running (st\<lparr>stdout := stdout st @
                                    [JObj [(''jsonrpc'', JStr ''2.0''),
                                           (''id'', i),
                                           (''error'', JObj [(''code'', JInt (- 32603)),
                                                             (''message'', JStr ''Internal error'')])]]\<rparr>)"
    using other_exception_iteration [of l py e st cfg be] by simp
qed

theorem parse_error_response_witness:
  "strip ''{not json\<newline>'' \<noteq> []
   \<and> json_loads example_python (strip ''{not json\<newline>'') = Inl JSONDecodeError
   \<and> loop_iteration simulated_config example_python no_bedrock (start 0) (Line ''{not json\<newline>'') =
       Running \<lparr>self = MCPServer_init, request_var = None,
                stdout = [JObj [(''jsonrpc'', JStr ''2.0''),
                                (''id'', JNull),
                                (''error'', JObj [(''code'', JInt (- 32700)),
                                                  (''message'', JStr ''Parse error'')])]],
                world = 0\<rparr>
   \<and> strip deep_line \<noteq> []
   \<and> json_loads recursion_python (strip deep_line) = Inl (Raised ''RecursionError'')
   \<and> Raised ''RecursionError'' \<noteq> JSONDecodeError
   \<and> run_events simulated_config recursion_python no_bedrock (start 0) [] = Running (start 0)
   \<and> (\<exists>i. loop_iteration simulated_config recursion_python no_bedrock (start 0) (Line deep_line) =
            Running ((start 0)\<lparr>stdout := stdout (start (0::nat)) @
                       [JObj [(''jsonrpc'', JStr ''2.0''),
                              (''id'', i),
                              (''error'', JObj [(''code'', JInt (- 32603)),
                                                (''message'', JStr ''Internal error'')])]]\<rparr>))"
proof -
  have nonblank: "strip ''{not json\<newline>'' \<noteq> []"
    by (simp add: strip_not_json)
  have rejected: "json_loads example_python (strip ''{not json\<newline>'') = Inl JSONDecodeError"
    by (simp only: strip_not_json loads_not_json)
  have first: "loop_iteration simulated_config example_python no_bedrock (start 0)
       (Line ''{not json\<newline>'') =
       Running \<lparr>self = MCPServer_init, request_var = None,
                stdout = [JObj [(''jsonrpc'', JStr ''2.0''),
                                (''id'', JNull),
                                (''error'', JObj [(''code'', JInt (- 32700)),
                                                  (''message'', JStr ''Parse error'')])]],
                world = 0\<rparr>"
    using rejected
      parse_error_response [OF nonblank, of example_python simulated_config no_bedrock "start 0" "[]",
        THEN conjunct1]
    by (simp add: start_def)
  have deep: "strip deep_line \<noteq> []"
    by (simp add: strip_deep_line deep_line_nonblank)
  have raised: "json_loads recursion_python (strip deep_line) = Inl (Raised ''RecursionError'')"
    by (simp only: strip_deep_line loads_deep_line)
  have other: "Raised ''RecursionError'' \<noteq> JSONDecodeError"
    by simp
  have reached: "run_events simulated_config recursion_python no_bedrock (start 0) [] =
      Running (start (0::nat))"
    by simp
  note second = parse_error_response [OF deep, of recursion_python simulated_config no_bedrock
      "start 0" "[]", THEN conjunct2, rule_format, OF conjI [OF raised conjI [OF other reached]]]
  show ?thesis
    using nonblank rejected first deep raised reached second by simp
qed

text \<open>
  The claim as first stated promises the parse-error response for every line that is
  not parseable. The text of 100000 opening brackets is not parseable; read after a
  \<open>tools/list\<close> request with the id 4, it is answered with the code -32603 and the id 4.
\<close>

theorem parse_error_response_counterexample:
  "strip deep_line \<noteq> []
   \<and> json_loads recursion_python (strip deep_line) = Inl (Raised ''RecursionError'')
   \<and> run_loop simulated_config recursion_python no_bedrock (start 0)
        [Line (tools_list_line @ ''\<newline>''), Line deep_line] =
       (\<lparr>self = MCPServer_init, request_var = Some (JObj tools_list_request),
         stdout = [JObj [(''jsonrpc'', JStr ''2.0''), (''id'', JInt 4),
                         (''result'', JObj [(''tools'', JArr (map snd (tools MCPServer_init)))])],
                   JObj [(''jsonrpc'', JStr ''2.0''), (''id'', JInt 4),
                         (''error'', JObj [(''code'', JInt (- 32603)),
                                           (''message'', JStr ''Internal error'')])]],
         world = 0\<rparr>, 0)"
proof -
  let ?listing = "JObj [(''jsonrpc'', JStr ''2.0''), (''id'', JInt 4),
      (''result'', JObj [(''tools'', JArr (map snd (tools MCPServer_init)))])]"
  let ?st1 = "\<lparr>self = MCPServer_init, request_var = Some (JObj tools_list_request),
      stdout = [?listing], world = (0::nat)\<rparr>"
  have deep: "strip deep_line \<noteq> []"
    by (simp add: strip_deep_line deep_line_nonblank)
  have raised: "json_loads recursion_python (strip deep_line) = Inl (Raised ''RecursionError'')"
    by (simp only: strip_deep_line loads_deep_line)
  have nonblank: "strip (tools_list_line @ ''\<newline>'') \<noteq> []"
    by (simp add: strip_tools_list_line tools_list_line_nonblank)
  have decoded: "json_loads recursion_python (strip (tools_list_line @ ''\<newline>'')) =
      Inr (JObj tools_list_request)"
    by (simp only: strip_tools_list_line recursion_loads_tools_list_line)
  have m: "get_default tools_list_request ''method'' JNull = JStr ''tools/list''"
    by (simp add: tools_list_request_def get_default_def)
  have i: "get_default tools_list_request ''id'' JNull = JInt 4"
    by (simp add: tools_list_request_def get_default_def)
  have listed: "loop_iteration simulated_config recursion_python no_bedrock (start 0)
      (Line (tools_list_line @ ''\<newline>'')) = Running ?st1"
    using tools_list_iteration [OF nonblank decoded m, of simulated_config no_bedrock "start 0"]
    by (simp add: start_def i)
  have answered: "loop_iteration simulated_config recursion_python no_bedrock ?st1 (Line deep_line) =
      Running (?st1\<lparr>stdout := [?listing, error_response (JInt 4) (- 32603) ''Internal error'']\<rparr>)"
    using deep_line_nonblank
    by (simp add: loop_iteration_def strip_deep_line loads_deep_line process_line_def
        except_clauses_def internal_error_def py_print_def i)
  have "run_loop simulated_config recursion_python no_bedrock (start 0)
        [Line (tools_list_line @ ''\<newline>''), Line deep_line] =
      (?st1\<lparr>stdout := [?listing, error_response (JInt 4) (- 32603) ''Internal error'']\<rparr>, 0)"
    by (simp add: run_loop_def listed answered)
  then show ?thesis
    using deep raised by (simp add: error_response_def)
qed

text \<open>
  A line that decodes to a value that is no dictionary: the argument of \<^verbatim>\<open>logger.info\<close>
  raises, the clause \<^verbatim>\<open>except Exception\<close> raises again on \<^verbatim>\<open>request.get("id")\<close>, and
  the process exits with status 1 without a response.
\<close>

lemma non_object_request_exits:
  assumes "strip l \<noteq> []"
    and "json_loads py (strip l) = Inr v"
    and "py_get v ''id'' JNull = Inl AttributeError"
  shows "loop_iteration cfg py be st (Line l) = Exited (st\<lparr>request_var := Some v\<rparr>) 1"
proof -
  from assms(1) have "l \<noteq> []"
    using strip_Nil by auto
  moreover from assms(3) have "py_get v ''method'' (JStr ''unknown'') = Inl AttributeError"
    by (cases v) simp_all
  ultimately show ?thesis
    using assms
    by (simp add: loop_iteration_def process_line_def except_clauses_def internal_error_def Let_def)
qed

text \<open>
  Claim C2 fails on the code. The line \<^verbatim>\<open>[]\<close> is valid JSON and no object: the session
  prints nothing for it, never reads the \<open>tools/list\<close> request that follows, and exits
  with status 1. The claim asks for an internal-error response and for the loop to go on.
\<close>

theorem non_object_line_exits:
  "json_loads example_python (strip ''[]\<newline>'') = Inr (JArr [])
   \<and> run_loop simulated_config example_python no_bedrock (start 0)
        [Line ''[]\<newline>'', Line (tools_list_line @ ''\<newline>'')] =
       (\<lparr>self = MCPServer_init, request_var = Some (JArr []), stdout = [], world = 0\<rparr>, 1)"
proof -
  have stripped: "strip ''[]\<newline>'' = ''[]''"
    by (simp add: strip_def py_isspace_def)
  have decoded: "json_loads example_python ''[]'' = Inr (JArr [])"
    by (simp add: example_python_def example_lines_def)
  have "loop_iteration simulated_config example_python no_bedrock (start 0) (Line ''[]\<newline>'') =
      Exited ((start 0)\<lparr>request_var := Some (JArr [])\<rparr>) 1"
    by (rule non_object_request_exits) (simp_all add: stripped decoded)
  then show ?thesis
    by (simp add: run_loop_def stripped decoded start_def)
qed

end
